theory Spec2Isabelle
  imports Complex_Main "HOL-Library.Word"
begin

section \<open>The OpenGL renderer of the video output (modules/video\_output/opengl/renderer.c)\<close>

text \<open>
  The renderer is embedded function by function. Conventions of the embedding:
  \<^item> a \<^verbatim>\<open>GLfloat\<close>/\<^verbatim>\<open>float\<close> is the real number it denotes: literals are read at
    their decimal value, \<^verbatim>\<open>M_PI\<close> is \<open>pi\<close>, \<^verbatim>\<open>tanf\<close>, \<^verbatim>\<open>sinf\<close>, \<^verbatim>\<open>atanf\<close>, \<^verbatim>\<open>sqrtf\<close>
    are \<open>tan\<close>, \<open>sin\<close>, \<open>arctan\<close>, \<open>sqrt\<close>; rounding, infinities and NaN are not modelled;
  \<^item> a \<^verbatim>\<open>GLfloat[16]\<close> matrix is the list of its 16 entries in memory order;
  \<^item> the \<^verbatim>\<open>unsigned\<close> fields of a video format are 32-bit words; the loop counters
    and offsets of the mesh builders are natural numbers (with the few planes of an
    interop every value they take is far below \<open>2 ^ 32\<close>); a \<^verbatim>\<open>GLushort\<close> is a
    16-bit word, and a store into one truncates;
  \<^item> a C array is a list, a store \<^verbatim>\<open>a[i] = v\<close> is \<open>a[i := v]\<close>;
  \<^item> a function that mutates the renderer takes it and returns it updated, with the
    status code; the calls made through the OpenGL function table are returned as
    the list of calls, in order;
  \<^item> \<^verbatim>\<open>assert\<close> is compiled out (release build).
\<close>

type_synonym GLfloat = real
type_synonym GLushort = "16 word"
type_synonym mat4 = "GLfloat list"

subsection \<open>Status codes\<close>

datatype vlc_error = VLC_EGENERIC | VLC_ENOMEM | VLC_EBADVAR

type_synonym status = "vlc_error + unit"

abbreviation VLC_SUCCESS :: status where
  "VLC_SUCCESS \<equiv> Inr ()"

subsection \<open>Types of the headers the renderer includes\<close>

text \<open>
  The enumerations and structures below are declared in headers that are not among
  the sources (vlc\_es.h, vlc\_viewpoint.h, renderer.h, interop.h). They are written
  with the enumerators and fields renderer.c names; an enumerator it never names is
  covered by the extra last constructor, which takes the \<^verbatim>\<open>default\<close> branches.
\<close>

datatype video_orientation_t =
    ORIENT_NORMAL | ORIENT_TRANSPOSED | ORIENT_ANTI_TRANSPOSED | ORIENT_HFLIPPED
  | ORIENT_VFLIPPED | ORIENT_ROTATED_180 | ORIENT_ROTATED_270 | ORIENT_ROTATED_90

datatype video_projection_mode_t =
    PROJECTION_MODE_RECTANGULAR | PROJECTION_MODE_EQUIRECTANGULAR
  | PROJECTION_MODE_CUBEMAP_LAYOUT_STANDARD | PROJECTION_MODE_OTHER

datatype video_multiview_mode_t =
    MULTIVIEW_2D | MULTIVIEW_STEREO_SBS | MULTIVIEW_STEREO_TB | MULTIVIEW_OTHER

record vlc_viewpoint_t =
  yaw :: GLfloat
  pitch :: GLfloat
  roll :: GLfloat
  fov :: GLfloat

record video_format_t =
  i_width :: "32 word"
  i_height :: "32 word"
  i_x_offset :: "32 word"
  i_y_offset :: "32 word"
  i_visible_width :: "32 word"
  i_visible_height :: "32 word"
  orientation :: video_orientation_t
  projection_mode :: video_projection_mode_t
  multiview_mode :: video_multiview_mode_t
  i_cubemap_padding :: "32 word"

text \<open>The snapshot \<^verbatim>\<open>renderer->last_source\<close> of the visible rectangle last drawn.\<close>

record last_source_t =
  last_x_offset :: "32 word"
  last_y_offset :: "32 word"
  last_visible_width :: "32 word"
  last_visible_height :: "32 word"

text \<open>\<^verbatim>\<open>renderer->var\<close>: the four matrices uploaded as uniforms.\<close>

record var_t =
  OrientationMatrix :: mat4
  ProjectionMatrix :: mat4
  ZoomMatrix :: mat4
  ViewMatrix :: mat4

text \<open>One texture plane of the interop: the two scale ratios \<^verbatim>\<open>w\<close> and \<^verbatim>\<open>h\<close>.\<close>

record tex_cfg =
  w_num :: "32 word"
  w_den :: "32 word"
  h_num :: "32 word"
  h_den :: "32 word"

text \<open>
  The interop, as far as the renderer reads it. \<open>transform_matrix\<close> is what
  \<^verbatim>\<open>ops->get_transform_matrix\<close> returns, \<open>None\<close> when the operation is absent or
  returns \<^verbatim>\<open>NULL\<close>.
\<close>

record vlc_gl_interop =
  tex_count :: nat
  tex_target :: nat
  texs :: "tex_cfg list"
  transform_matrix :: "mat4 option"

record vlc_gl_renderer =
  interop :: vlc_gl_interop
  fmt :: video_format_t
  program_id :: nat
  textures :: "nat list"
  tex_width :: "int list"
  tex_height :: "int list"
  vertex_buffer_object :: nat
  index_buffer_object :: nat
  texture_buffer_object :: "nat list"
  nb_indices :: nat
  uloc_TransformMatrix :: int
  uloc_OrientationMatrix :: int
  uloc_ProjectionMatrix :: int
  uloc_ViewMatrix :: int
  uloc_ZoomMatrix :: int
  aloc_MultiTexCoord :: "int list"
  aloc_VertexPosition :: int
  var :: var_t
  last_source :: last_source_t
  vp :: vlc_viewpoint_t
  f_fovx :: GLfloat
  f_fovy :: GLfloat
  f_z :: GLfloat
  f_sar :: GLfloat

text \<open>
  What renderer.c takes from the rest of VLC without defining it: the two macros
  bounding the field of view (in degrees) and the two viewpoint helpers of
  vlc\_viewpoint.h. They are parameters of the embedding.
\<close>

record vlc_env =
  FIELD_OF_VIEW_DEGREES_MIN :: GLfloat
  FIELD_OF_VIEW_DEGREES_MAX :: GLfloat
  vlc_viewpoint_reverse :: "vlc_viewpoint_t \<Rightarrow> vlc_viewpoint_t"
  vlc_viewpoint_to_4x4 :: "vlc_viewpoint_t \<Rightarrow> mat4"

subsection \<open>Matrices\<close>

definition SPHERE_RADIUS :: GLfloat where
  "SPHERE_RADIUS = 1"

definition identity :: mat4 where
  "identity =
    [1, 0, 0, 0,
     0, 1, 0, 0,
     0, 0, 1, 0,
     0, 0, 0, 1]"

definition getZoomMatrix :: "GLfloat \<Rightarrow> mat4" where
  "getZoomMatrix zoom =
    [1, 0, 0, 0,
     0, 1, 0, 0,
     0, 0, 1, 0,
     0, 0, zoom, 1]"

definition getProjectionMatrix :: "GLfloat \<Rightarrow> GLfloat \<Rightarrow> mat4" where
  "getProjectionMatrix sar fovy =
    (let zFar = 1000;
         zNear = 1 / 100;
         f = 1 / tan (fovy / 2)
     in [f / sar, 0, 0, 0,
         0, f, 0, 0,
         0, 0, (zNear + zFar) / (zNear - zFar), - 1,
         0, 0, (2 * zNear * zFar) / (zNear - zFar), 0])"

definition getViewpointMatrixes ::
  "vlc_env \<Rightarrow> vlc_gl_renderer \<Rightarrow> video_projection_mode_t \<Rightarrow> vlc_gl_renderer" where
  "getViewpointMatrixes env renderer mode =
    (if mode = PROJECTION_MODE_EQUIRECTANGULAR
        \<or> mode = PROJECTION_MODE_CUBEMAP_LAYOUT_STANDARD
     then renderer\<lparr>var := (var renderer)
            \<lparr>ProjectionMatrix := getProjectionMatrix (f_sar renderer) (f_fovy renderer),
             ZoomMatrix := getZoomMatrix (f_z renderer),
             ViewMatrix := vlc_viewpoint_to_4x4 env (vp renderer)\<rparr>\<rparr>
     else renderer\<lparr>var := (var renderer)
            \<lparr>ProjectionMatrix := identity,
             ZoomMatrix := identity,
             ViewMatrix := identity\<rparr>\<rparr>)"

text \<open>
  \<^verbatim>\<open>matrix[r * 4 + c] = v\<close> after the \<^verbatim>\<open>memcpy\<close> of the identity; the six constants
  are the integer cosines and sines of the source.
\<close>

definition getOrientationTransformMatrix :: "video_orientation_t \<Rightarrow> mat4" where
  "getOrientationTransformMatrix orient =
    (let matrix = identity;
         k_cos_pi = (- 1 :: int);
         k_cos_pi_2 = (0 :: int);
         k_cos_n_pi_2 = (0 :: int);
         k_sin_pi = (0 :: int);
         k_sin_pi_2 = (1 :: int);
         k_sin_n_pi_2 = (- 1 :: int)
     in case orient of
          ORIENT_ROTATED_90 \<Rightarrow>
            matrix[0 * 4 + 0 := of_int k_cos_pi_2,
                   0 * 4 + 1 := of_int (- k_sin_pi_2),
                   1 * 4 + 0 := of_int k_sin_pi_2,
                   1 * 4 + 1 := of_int k_cos_pi_2,
                   3 * 4 + 1 := 1]
        | ORIENT_ROTATED_180 \<Rightarrow>
            matrix[0 * 4 + 0 := of_int k_cos_pi,
                   0 * 4 + 1 := of_int (- k_sin_pi),
                   1 * 4 + 0 := of_int k_sin_pi,
                   1 * 4 + 1 := of_int k_cos_pi,
                   3 * 4 + 0 := 1,
                   3 * 4 + 1 := 1]
        | ORIENT_ROTATED_270 \<Rightarrow>
            matrix[0 * 4 + 0 := of_int k_cos_n_pi_2,
                   0 * 4 + 1 := of_int (- k_sin_n_pi_2),
                   1 * 4 + 0 := of_int k_sin_n_pi_2,
                   1 * 4 + 1 := of_int k_cos_n_pi_2,
                   3 * 4 + 0 := 1]
        | ORIENT_HFLIPPED \<Rightarrow>
            matrix[0 * 4 + 0 := - 1,
                   3 * 4 + 0 := 1]
        | ORIENT_VFLIPPED \<Rightarrow>
            matrix[1 * 4 + 1 := - 1,
                   3 * 4 + 1 := 1]
        | ORIENT_TRANSPOSED \<Rightarrow>
            matrix[0 * 4 + 0 := 0,
                   1 * 4 + 1 := 0,
                   2 * 4 + 2 := - 1,
                   0 * 4 + 1 := 1,
                   1 * 4 + 0 := 1]
        | ORIENT_ANTI_TRANSPOSED \<Rightarrow>
            matrix[0 * 4 + 0 := 0,
                   1 * 4 + 1 := 0,
                   2 * 4 + 2 := - 1,
                   0 * 4 + 1 := - 1,
                   1 * 4 + 0 := - 1,
                   3 * 4 + 0 := 1,
                   3 * 4 + 1 := 1]
        | _ \<Rightarrow> matrix)"

subsection \<open>Field of view and zoom\<close>

definition UpdateZ :: "vlc_env \<Rightarrow> vlc_gl_renderer \<Rightarrow> vlc_gl_renderer" where
  "UpdateZ env renderer =
    (let tan_fovx_2 = tan (f_fovx renderer / 2);
         tan_fovy_2 = tan (f_fovy renderer / 2);
         z_min = - SPHERE_RADIUS / sin (arctan (sqrt
                   (tan_fovx_2 * tan_fovx_2 + tan_fovy_2 * tan_fovy_2)));
         z_thresh = 90
     in if f_fovx renderer \<le> z_thresh * pi / 180
        then renderer\<lparr>f_z := 0\<rparr>
        else
          (let f = z_min / ((FIELD_OF_VIEW_DEGREES_MAX env - z_thresh) * pi / 180);
               renderer1 = renderer\<lparr>f_z := f * f_fovx renderer - f * z_thresh * pi / 180\<rparr>
           in if f_z renderer1 < z_min then renderer1\<lparr>f_z := z_min\<rparr> else renderer1))"

definition UpdateFOVy :: "vlc_gl_renderer \<Rightarrow> vlc_gl_renderer" where
  "UpdateFOVy renderer =
    renderer\<lparr>f_fovy := 2 * arctan (tan (f_fovx renderer / 2) / f_sar renderer)\<rparr>"

definition vlc_gl_renderer_SetViewpoint ::
  "vlc_env \<Rightarrow> vlc_gl_renderer \<Rightarrow> vlc_viewpoint_t \<Rightarrow> status \<times> vlc_gl_renderer" where
  "vlc_gl_renderer_SetViewpoint env renderer p_vp =
    (if fov p_vp > FIELD_OF_VIEW_DEGREES_MAX env
        \<or> fov p_vp < FIELD_OF_VIEW_DEGREES_MIN env
     then (Inl VLC_EBADVAR, renderer)
     else
       (let f_fovx' = fov p_vp * pi / 180;
            renderer1 = renderer\<lparr>vp := vlc_viewpoint_reverse env p_vp\<rparr>;
            renderer2 =
              (if \<bar>f_fovx' - f_fovx renderer1\<bar> \<ge> 1 / 1000
               then UpdateZ env (UpdateFOVy (renderer1\<lparr>f_fovx := f_fovx'\<rparr>))
               else renderer1)
        in (VLC_SUCCESS,
            getViewpointMatrixes env renderer2 (projection_mode (fmt renderer2)))))"

definition vlc_gl_renderer_SetWindowAspectRatio ::
  "vlc_env \<Rightarrow> vlc_gl_renderer \<Rightarrow> GLfloat \<Rightarrow> vlc_gl_renderer" where
  "vlc_gl_renderer_SetWindowAspectRatio env renderer sar =
    (let renderer1 = UpdateZ env (UpdateFOVy (renderer\<lparr>f_sar := sar\<rparr>))
     in getViewpointMatrixes env renderer1 (projection_mode (fmt renderer1)))"

subsection \<open>The allocator\<close>

text \<open>
  \<^verbatim>\<open>vlc_alloc\<close> (vlc\_common.h) and \<^verbatim>\<open>free\<close> are not among the sources; what they
  answer is a parameter of the embedding. The heap records which blocks are
  allocated and how many requests were made; whether the \<open>k\<close>-th request fails is
  decided by \<open>oom\<close>, and the indeterminate first contents of the block it returns by
  \<open>junk_float\<close> and \<open>junk_ushort\<close>. A block is its number and its contents.
\<close>

record heap =
  oom :: "nat \<Rightarrow> bool"
  junk_float :: "nat \<Rightarrow> nat \<Rightarrow> GLfloat"
  junk_ushort :: "nat \<Rightarrow> nat \<Rightarrow> GLushort"
  requests :: nat
  live :: "nat set"

type_synonym 'a block = "nat \<times> 'a list"

definition vlc_alloc ::
  "(heap \<Rightarrow> nat \<Rightarrow> nat \<Rightarrow> 'a) \<Rightarrow> heap \<Rightarrow> nat \<Rightarrow> 'a block option \<times> heap" where
  "vlc_alloc junk h count =
    (let k = requests h;
         h' = h\<lparr>requests := Suc k\<rparr>
     in if oom h k then (None, h')
        else (Some (k, map (junk h k) [0..<count]), h'\<lparr>live := insert k (live h')\<rparr>))"

definition free :: "heap \<Rightarrow> 'a block \<Rightarrow> heap" where
  "free h b = h\<lparr>live := live h - {fst b}\<rparr>"

text \<open>\<^verbatim>\<open>memcpy(dst + off, src, n * sizeof *dst)\<close>.\<close>

definition memcpy :: "'a list \<Rightarrow> nat \<Rightarrow> 'a list \<Rightarrow> nat \<Rightarrow> 'a list" where
  "memcpy dst off src n = take off dst @ take n src @ drop (off + n) dst"

subsection \<open>Mesh builders\<close>

text \<open>The out-parameters of a builder that returned \<^verbatim>\<open>VLC_SUCCESS\<close>.\<close>

record mesh =
  vertexCoord :: "GLfloat block"
  textureCoord :: "GLfloat block"
  nbVertices :: nat
  indices :: "GLushort block"
  nbIndices :: nat

text \<open>The loop over the planes inside the two loops of \<^verbatim>\<open>BuildSphere\<close>.\<close>

definition sphere_planes ::
  "nat \<Rightarrow> nat \<Rightarrow> nat \<Rightarrow> nat \<Rightarrow> nat \<Rightarrow> GLfloat list \<Rightarrow> GLfloat list \<Rightarrow> GLfloat list
     \<Rightarrow> GLfloat list \<Rightarrow> GLfloat list \<Rightarrow> GLfloat list" where
  "sphere_planes nbPlanes nbLatBands nbLonBands lat lon left top' right bottom tc0 =
    fold (\<lambda>p tc.
        let off2 = (p * (nbLatBands + 1) * (nbLonBands + 1)
                    + lat * (nbLonBands + 1) + lon) * 2;
            width = right ! p - left ! p;
            height = bottom ! p - top' ! p;
            u = real lon / real nbLonBands * width;
            v = real lat / real nbLatBands * height
        in tc[off2 := u, off2 + 1 := v])
      [0..<nbPlanes] tc0"

text \<open>The loop over \<^verbatim>\<open>lon\<close>, for one \<^verbatim>\<open>lat\<close>: the state is the two coordinate arrays.\<close>

definition sphere_lon_loop ::
  "nat \<Rightarrow> nat \<Rightarrow> nat \<Rightarrow> nat \<Rightarrow> GLfloat \<Rightarrow> GLfloat \<Rightarrow> GLfloat list \<Rightarrow> GLfloat list
     \<Rightarrow> GLfloat list \<Rightarrow> GLfloat list \<Rightarrow> GLfloat list \<times> GLfloat list
     \<Rightarrow> GLfloat list \<times> GLfloat list" where
  "sphere_lon_loop nbPlanes nbLatBands nbLonBands lat sinTheta cosTheta
      left top' right bottom =
    fold (\<lambda>lon (vc, tc).
        let phi = real lon * 2 * pi / real nbLonBands;
            sinPhi = sin phi;
            cosPhi = cos phi;
            x = cosPhi * sinTheta;
            y = cosTheta;
            z = sinPhi * sinTheta;
            off1 = (lat * (nbLonBands + 1) + lon) * 3
        in (vc[off1 := SPHERE_RADIUS * x,
               off1 + 1 := SPHERE_RADIUS * y,
               off1 + 2 := SPHERE_RADIUS * z],
            sphere_planes nbPlanes nbLatBands nbLonBands lat lon
              left top' right bottom tc))
      [0..<nbLonBands + 1]"

definition sphere_lat_loop ::
  "nat \<Rightarrow> nat \<Rightarrow> nat \<Rightarrow> GLfloat list \<Rightarrow> GLfloat list \<Rightarrow> GLfloat list \<Rightarrow> GLfloat list
     \<Rightarrow> GLfloat list \<times> GLfloat list \<Rightarrow> GLfloat list \<times> GLfloat list" where
  "sphere_lat_loop nbPlanes nbLatBands nbLonBands left top' right bottom =
    fold (\<lambda>lat arrays.
        let theta = real lat * pi / real nbLatBands;
            sinTheta = sin theta;
            cosTheta = cos theta
        in sphere_lon_loop nbPlanes nbLatBands nbLonBands lat sinTheta cosTheta
             left top' right bottom arrays)
      [0..<nbLatBands + 1]"

text \<open>The second pair of loops: six indices for each cell of the tessellation.\<close>

definition sphere_index_cell :: "nat \<Rightarrow> nat \<Rightarrow> nat \<Rightarrow> nat \<Rightarrow> GLushort list \<Rightarrow> GLushort list" where
  "sphere_index_cell nbLatBands nbLonBands lat lon ix =
    (let first = (lat * (nbLonBands + 1)) + lon;
         second = first + nbLonBands + 1;
         off = (lat * nbLatBands + lon) * 3 * 2
     in ix[off := of_nat first,
           off + 1 := of_nat second,
           off + 2 := of_nat (first + 1),
           off + 3 := of_nat second,
           off + 4 := of_nat (second + 1),
           off + 5 := of_nat (first + 1)])"

definition sphere_index_loop :: "nat \<Rightarrow> nat \<Rightarrow> GLushort list \<Rightarrow> GLushort list" where
  "sphere_index_loop nbLatBands nbLonBands =
    fold (\<lambda>lat. fold (sphere_index_cell nbLatBands nbLonBands lat) [0..<nbLonBands])
      [0..<nbLatBands]"

definition BuildSphere ::
  "nat \<Rightarrow> GLfloat list \<Rightarrow> GLfloat list \<Rightarrow> GLfloat list \<Rightarrow> GLfloat list \<Rightarrow> heap
     \<Rightarrow> (vlc_error + mesh) \<times> heap" where
  "BuildSphere nbPlanes left top' right bottom h =
    (let nbLatBands = 128;
         nbLonBands = 128;
         nbVertices' = (nbLatBands + 1) * (nbLonBands + 1);
         nbIndices' = nbLatBands * nbLonBands * 3 * 2
     in case vlc_alloc junk_float h (nbVertices' * 3) of
          (None, h1) \<Rightarrow> (Inl VLC_ENOMEM, h1)
        | (Some vertexCoord', h1) \<Rightarrow>
     (case vlc_alloc junk_float h1 (nbPlanes * nbVertices' * 2) of
          (None, h2) \<Rightarrow> (Inl VLC_ENOMEM, free h2 vertexCoord')
        | (Some textureCoord', h2) \<Rightarrow>
     (case vlc_alloc junk_ushort h2 nbIndices' of
          (None, h3) \<Rightarrow> (Inl VLC_ENOMEM, free (free h3 textureCoord') vertexCoord')
        | (Some indices', h3) \<Rightarrow>
     (let (vc, tc) = sphere_lat_loop nbPlanes nbLatBands nbLonBands left top' right bottom
                       (snd vertexCoord', snd textureCoord');
          ix = sphere_index_loop nbLatBands nbLonBands (snd indices')
      in (Inr \<lparr>vertexCoord = (fst vertexCoord', vc),
                textureCoord = (fst textureCoord', tc),
                nbVertices = nbVertices',
                indices = (fst indices', ix),
                nbIndices = nbIndices'\<rparr>, h3)))))"

definition cube_coord :: "GLfloat list" where
  "cube_coord =
    [- 1, 1, - 1,   - 1, - 1, - 1,   1, 1, - 1,   1, - 1, - 1,
     - 1, 1, 1,     - 1, - 1, 1,     1, 1, 1,     1, - 1, 1,
     - 1, 1, - 1,   - 1, - 1, - 1,   - 1, 1, 1,   - 1, - 1, 1,
     1, 1, - 1,     1, - 1, - 1,     1, 1, 1,     1, - 1, 1,
     - 1, - 1, 1,   - 1, - 1, - 1,   1, - 1, 1,   1, - 1, - 1,
     - 1, 1, 1,     - 1, 1, - 1,     1, 1, 1,     1, 1, - 1]"

definition cube_tex ::
  "GLfloat \<Rightarrow> GLfloat \<Rightarrow> GLfloat \<Rightarrow> GLfloat \<Rightarrow> GLfloat \<Rightarrow> GLfloat \<Rightarrow> GLfloat list" where
  "cube_tex padW padH l t r b =
    (let width = r - l;
         height = b - t;
         col = [l, l + width * 1 / 3, l + width * 2 / 3, l + width];
         row = [t, t + height * 1 / 2, t + height]
     in [col ! 1 + padW, row ! 1 + padH,
         col ! 1 + padW, row ! 2 - padH,
         col ! 2 - padW, row ! 1 + padH,
         col ! 2 - padW, row ! 2 - padH,

         col ! 3 - padW, row ! 1 + padH,
         col ! 3 - padW, row ! 2 - padH,
         col ! 2 + padW, row ! 1 + padH,
         col ! 2 + padW, row ! 2 - padH,

         col ! 2 - padW, row ! 0 + padH,
         col ! 2 - padW, row ! 1 - padH,
         col ! 1 + padW, row ! 0 + padH,
         col ! 1 + padW, row ! 1 - padH,

         col ! 0 + padW, row ! 0 + padH,
         col ! 0 + padW, row ! 1 - padH,
         col ! 1 - padW, row ! 0 + padH,
         col ! 1 - padW, row ! 1 - padH,

         col ! 0 + padW, row ! 2 - padH,
         col ! 0 + padW, row ! 1 + padH,
         col ! 1 - padW, row ! 2 - padH,
         col ! 1 - padW, row ! 1 + padH,

         col ! 2 + padW, row ! 0 + padH,
         col ! 2 + padW, row ! 1 - padH,
         col ! 3 - padW, row ! 0 + padH,
         col ! 3 - padW, row ! 1 - padH])"

definition cube_ind :: "GLushort list" where
  "cube_ind =
    [0, 1, 2,      2, 1, 3,
     6, 7, 4,      4, 7, 5,
     10, 11, 8,    8, 11, 9,
     12, 13, 14,   14, 13, 15,
     18, 19, 16,   16, 19, 17,
     20, 21, 22,   22, 21, 23]"

definition BuildCube ::
  "nat \<Rightarrow> GLfloat \<Rightarrow> GLfloat \<Rightarrow> GLfloat list \<Rightarrow> GLfloat list \<Rightarrow> GLfloat list
     \<Rightarrow> GLfloat list \<Rightarrow> heap \<Rightarrow> (vlc_error + mesh) \<times> heap" where
  "BuildCube nbPlanes padW padH left top' right bottom h =
    (let nbVertices' = 4 * 6;
         nbIndices' = 6 * 6
     in case vlc_alloc junk_float h (nbVertices' * 3) of
          (None, h1) \<Rightarrow> (Inl VLC_ENOMEM, h1)
        | (Some vertexCoord', h1) \<Rightarrow>
     (case vlc_alloc junk_float h1 (nbPlanes * nbVertices' * 2) of
          (None, h2) \<Rightarrow> (Inl VLC_ENOMEM, free h2 vertexCoord')
        | (Some textureCoord', h2) \<Rightarrow>
     (case vlc_alloc junk_ushort h2 nbIndices' of
          (None, h3) \<Rightarrow> (Inl VLC_ENOMEM, free (free h3 textureCoord') vertexCoord')
        | (Some indices', h3) \<Rightarrow>
     (let vc = memcpy (snd vertexCoord') 0 cube_coord (nbVertices' * 3);
          tc = fold (\<lambda>p tc.
                 memcpy tc (p * nbVertices' * 2)
                   (cube_tex padW padH (left ! p) (top' ! p) (right ! p) (bottom ! p))
                   (nbVertices' * 2))
               [0..<nbPlanes] (snd textureCoord');
          ix = memcpy (snd indices') 0 cube_ind nbIndices'
      in (Inr \<lparr>vertexCoord = (fst vertexCoord', vc),
                textureCoord = (fst textureCoord', tc),
                nbVertices = nbVertices',
                indices = (fst indices', ix),
                nbIndices = nbIndices'\<rparr>, h3)))))"

definition rectangle_coord :: "GLfloat list" where
  "rectangle_coord =
    [- 1, 1, - 1,
     - 1, - 1, - 1,
     1, 1, - 1,
     1, - 1, - 1]"

definition rectangle_ind :: "GLushort list" where
  "rectangle_ind = [0, 1, 2, 2, 1, 3]"

definition BuildRectangle ::
  "nat \<Rightarrow> GLfloat list \<Rightarrow> GLfloat list \<Rightarrow> GLfloat list \<Rightarrow> GLfloat list \<Rightarrow> heap
     \<Rightarrow> (vlc_error + mesh) \<times> heap" where
  "BuildRectangle nbPlanes left top' right bottom h =
    (let nbVertices' = 4;
         nbIndices' = 6
     in case vlc_alloc junk_float h (nbVertices' * 3) of
          (None, h1) \<Rightarrow> (Inl VLC_ENOMEM, h1)
        | (Some vertexCoord', h1) \<Rightarrow>
     (case vlc_alloc junk_float h1 (nbPlanes * nbVertices' * 2) of
          (None, h2) \<Rightarrow> (Inl VLC_ENOMEM, free h2 vertexCoord')
        | (Some textureCoord', h2) \<Rightarrow>
     (case vlc_alloc junk_ushort h2 nbIndices' of
          (None, h3) \<Rightarrow> (Inl VLC_ENOMEM, free (free h3 textureCoord') vertexCoord')
        | (Some indices', h3) \<Rightarrow>
     (let vc = memcpy (snd vertexCoord') 0 rectangle_coord (nbVertices' * 3);
          tc = fold (\<lambda>p tc.
                 memcpy tc (p * nbVertices' * 2)
                   [left ! p, top' ! p,
                    left ! p, bottom ! p,
                    right ! p, top' ! p,
                    right ! p, bottom ! p]
                   (nbVertices' * 2))
               [0..<nbPlanes] (snd textureCoord');
          ix = memcpy (snd indices') 0 rectangle_ind nbIndices'
      in (Inr \<lparr>vertexCoord = (fst vertexCoord', vc),
                textureCoord = (fst textureCoord', tc),
                nbVertices = nbVertices',
                indices = (fst indices', ix),
                nbIndices = nbIndices'\<rparr>, h3)))))"

subsection \<open>Calls through the OpenGL function table\<close>

text \<open>
  The calls \<^verbatim>\<open>vt->...\<close> the renderer makes while it draws, and the call of
  \<^verbatim>\<open>renderer->pf_prepare_shader\<close>. A buffer upload carries the data it reads from
  the array it is given.
\<close>

datatype gl_buffer_target = GL_ARRAY_BUFFER | GL_ELEMENT_ARRAY_BUFFER

datatype gl_data = GLfloats "GLfloat list" | GLushorts "GLushort list"

datatype gl_call =
    Clear
  | UseProgram nat
  | BindBuffer gl_buffer_target nat
  | BufferData gl_buffer_target gl_data
  | PrepareShader "int list" "int list" GLfloat
  | ActiveTexture nat
  | BindTexture nat nat
  | EnableVertexAttribArray int
  | VertexAttribPointer int nat
  | UniformMatrix4fv int mat4
  | DrawElements nat

subsection \<open>Uploading the mesh\<close>

definition SetupCoords ::
  "vlc_gl_renderer \<Rightarrow> GLfloat list \<Rightarrow> GLfloat list \<Rightarrow> GLfloat list \<Rightarrow> GLfloat list \<Rightarrow> heap
     \<Rightarrow> status \<times> vlc_gl_renderer \<times> heap \<times> gl_call list" where
  "SetupCoords renderer left top' right bottom h =
    (let n = tex_count (interop renderer);
         (i_ret, h1) =
           (case projection_mode (fmt renderer) of
              PROJECTION_MODE_RECTANGULAR \<Rightarrow>
                BuildRectangle n left top' right bottom h
            | PROJECTION_MODE_EQUIRECTANGULAR \<Rightarrow>
                BuildSphere n left top' right bottom h
            | PROJECTION_MODE_CUBEMAP_LAYOUT_STANDARD \<Rightarrow>
                BuildCube n
                  (real (unat (i_cubemap_padding (fmt renderer)))
                     / real (unat (i_width (fmt renderer))))
                  (real (unat (i_cubemap_padding (fmt renderer)))
                     / real (unat (i_height (fmt renderer))))
                  left top' right bottom h
            | _ \<Rightarrow> (Inl VLC_EGENERIC, h))
     in case i_ret of
          Inl e \<Rightarrow> (Inl e, renderer, h1, [])
        | Inr m \<Rightarrow>
            (let calls =
                   concat (map (\<lambda>j.
                       [BindBuffer GL_ARRAY_BUFFER (texture_buffer_object renderer ! j),
                        BufferData GL_ARRAY_BUFFER
                          (GLfloats (take (nbVertices m * 2)
                             (drop (j * nbVertices m * 2) (snd (textureCoord m)))))])
                     [0..<n])
                   @ [BindBuffer GL_ARRAY_BUFFER (vertex_buffer_object renderer),
                      BufferData GL_ARRAY_BUFFER
                        (GLfloats (take (nbVertices m * 3) (snd (vertexCoord m)))),
                      BindBuffer GL_ELEMENT_ARRAY_BUFFER (index_buffer_object renderer),
                      BufferData GL_ELEMENT_ARRAY_BUFFER
                        (GLushorts (take (nbIndices m) (snd (indices m))))];
                 h2 = free (free (free h1 (textureCoord m)) (vertexCoord m)) (indices m)
             in (VLC_SUCCESS, renderer\<lparr>nb_indices := nbIndices m\<rparr>, h2, calls)))"

definition DrawWithShaders :: "vlc_gl_renderer \<Rightarrow> gl_call list" where
  "DrawWithShaders renderer =
    (let n = tex_count (interop renderer);
         tm = (case transform_matrix (interop renderer) of
                 None \<Rightarrow> identity
               | Some m \<Rightarrow> m)
     in [PrepareShader (tex_width renderer) (tex_height renderer) 1]
        @ concat (map (\<lambda>j.
            [ActiveTexture j,
             BindTexture (tex_target (interop renderer)) (textures renderer ! j),
             BindBuffer GL_ARRAY_BUFFER (texture_buffer_object renderer ! j),
             EnableVertexAttribArray (aloc_MultiTexCoord renderer ! j),
             VertexAttribPointer (aloc_MultiTexCoord renderer ! j) 2])
          [0..<n])
        @ [BindBuffer GL_ARRAY_BUFFER (vertex_buffer_object renderer),
           BindBuffer GL_ELEMENT_ARRAY_BUFFER (index_buffer_object renderer),
           EnableVertexAttribArray (aloc_VertexPosition renderer),
           VertexAttribPointer (aloc_VertexPosition renderer) 3,
           UniformMatrix4fv (uloc_TransformMatrix renderer) tm,
           UniformMatrix4fv (uloc_OrientationMatrix renderer)
             (OrientationMatrix (var renderer)),
           UniformMatrix4fv (uloc_ProjectionMatrix renderer)
             (ProjectionMatrix (var renderer)),
           UniformMatrix4fv (uloc_ViewMatrix renderer) (ViewMatrix (var renderer)),
           UniformMatrix4fv (uloc_ZoomMatrix renderer) (ZoomMatrix (var renderer)),
           DrawElements (nb_indices renderer)])"

subsection \<open>Stereo crop\<close>

text \<open>The four arrays \<^verbatim>\<open>left\<close>, \<^verbatim>\<open>top\<close>, \<^verbatim>\<open>right\<close>, \<^verbatim>\<open>bottom\<close>, one entry for each plane.\<close>

type_synonym rects = "GLfloat list \<times> GLfloat list \<times> GLfloat list \<times> GLfloat list"

definition GetTextureCropParamsForStereo ::
  "nat \<Rightarrow> GLfloat list \<Rightarrow> GLfloat list \<Rightarrow> rects \<Rightarrow> rects" where
  "GetTextureCropParamsForStereo i_nbTextures stereoCoefs stereoOffsets =
    fold (\<lambda>i (left, top', right, bottom).
        let f_2eyesWidth = right ! i - left ! i;
            left1 = left[i := left ! i + f_2eyesWidth * stereoOffsets ! 0];
            right1 = right[i := left1 ! i + f_2eyesWidth * stereoCoefs ! 0];
            f_2eyesHeight = bottom ! i - top' ! i;
            top1 = top'[i := top' ! i + f_2eyesHeight * stereoOffsets ! 1];
            bottom1 = bottom[i := top1 ! i + f_2eyesHeight * stereoCoefs ! 1]
        in (left1, top1, right1, bottom1))
      [0..<i_nbTextures]"

definition TextureCropForStereo :: "vlc_gl_renderer \<Rightarrow> rects \<Rightarrow> rects" where
  "TextureCropForStereo renderer arrays =
    (case multiview_mode (fmt renderer) of
       MULTIVIEW_STEREO_TB \<Rightarrow>
         GetTextureCropParamsForStereo (tex_count (interop renderer))
           [1, 1 / 2] [0, 0] arrays
     | MULTIVIEW_STEREO_SBS \<Rightarrow>
         GetTextureCropParamsForStereo (tex_count (interop renderer))
           [1 / 2, 1] [0, 0] arrays
     | _ \<Rightarrow> arrays)"

subsection \<open>Drawing\<close>

text \<open>
  The test of \<^verbatim>\<open>vlc_gl_renderer_Draw\<close> on the visible rectangle of the source against
  the snapshot.
\<close>

definition source_changed :: "video_format_t \<Rightarrow> last_source_t \<Rightarrow> bool" where
  "source_changed source ls \<longleftrightarrow>
     i_x_offset source \<noteq> last_x_offset ls
   \<or> i_y_offset source \<noteq> last_y_offset ls
   \<or> i_visible_width source \<noteq> last_visible_width ls
   \<or> i_visible_height source \<noteq> last_visible_height ls"

text \<open>
  The sampling rectangles of the planes: the local arrays are filled for the planes
  \<open>j < tex_count\<close> only, so the lists have \<open>tex_count\<close> entries.
\<close>

definition plane_rects :: "vlc_gl_renderer \<Rightarrow> video_format_t \<Rightarrow> rects" where
  "plane_rects renderer source =
    (let n = tex_count (interop renderer);
         scale_w = (\<lambda>j. real (unat (w_num (texs (interop renderer) ! j)))
                          / real (unat (w_den (texs (interop renderer) ! j)))
                          / real_of_int (tex_width renderer ! j));
         scale_h = (\<lambda>j. real (unat (h_num (texs (interop renderer) ! j)))
                          / real (unat (h_den (texs (interop renderer) ! j)))
                          / real_of_int (tex_height renderer ! j))
     in (map (\<lambda>j. real (unat (i_x_offset source + 0)) * scale_w j) [0..<n],
         map (\<lambda>j. real (unat (i_y_offset source + 0)) * scale_h j) [0..<n],
         map (\<lambda>j. real (unat (i_x_offset source + i_visible_width source)) * scale_w j)
           [0..<n],
         map (\<lambda>j. real (unat (i_y_offset source + i_visible_height source)) * scale_h j)
           [0..<n]))"

definition vlc_gl_renderer_Draw ::
  "vlc_gl_renderer \<Rightarrow> video_format_t \<Rightarrow> heap
     \<Rightarrow> status \<times> vlc_gl_renderer \<times> heap \<times> gl_call list" where
  "vlc_gl_renderer_Draw renderer source h =
    (let calls0 = [Clear, UseProgram (program_id renderer)]
     in if source_changed source (last_source renderer)
        then
          (let (left, top', right, bottom) =
                 TextureCropForStereo renderer (plane_rects renderer source);
               (ret, renderer1, h1, calls1) =
                 SetupCoords renderer left top' right bottom h
           in if ret \<noteq> VLC_SUCCESS
              then (ret, renderer1, h1, calls0 @ calls1)
              else
                (let renderer2 = renderer1\<lparr>last_source :=
                       \<lparr>last_x_offset = i_x_offset source,
                        last_y_offset = i_y_offset source,
                        last_visible_width = i_visible_width source,
                        last_visible_height = i_visible_height source\<rparr>\<rparr>
                 in (VLC_SUCCESS, renderer2, h1,
                     calls0 @ calls1 @ DrawWithShaders renderer2)))
        else (VLC_SUCCESS, renderer, h, calls0 @ DrawWithShaders renderer))"


fun is_upload :: "gl_call \<Rightarrow> bool" where
  "is_upload (BufferData t d) = True"
| "is_upload c = False"


subsection \<open>Notions used to state the properties\<close>

text \<open>
  A heap is well formed when the blocks in use were handed out by earlier requests.
  \<open>alloc_fails\<close> says that one of the next three requests, the three arrays of a
  mesh builder, fails; \<open>heap_after\<close> is the heap after three requests that succeed.
\<close>

definition heap_wf :: "heap \<Rightarrow> bool" where
  "heap_wf h \<longleftrightarrow> (\<forall>k\<in>live h. k < requests h)"

definition alloc_fails :: "heap \<Rightarrow> bool" where
  "alloc_fails h \<longleftrightarrow>
     oom h (requests h) \<or> oom h (Suc (requests h)) \<or> oom h (Suc (Suc (requests h)))"


text \<open>
  The calls by which \<^verbatim>\<open>SetupCoords\<close> uploads a mesh, and the snapshot
  \<^verbatim>\<open>vlc_gl_renderer_Draw\<close> stores after it.
\<close>

definition upload_calls :: "vlc_gl_renderer \<Rightarrow> mesh \<Rightarrow> gl_call list" where
  "upload_calls renderer m =
     concat (map (\<lambda>j.
         [BindBuffer GL_ARRAY_BUFFER (texture_buffer_object renderer ! j),
          BufferData GL_ARRAY_BUFFER
            (GLfloats (take (nbVertices m * 2)
               (drop (j * nbVertices m * 2) (snd (textureCoord m)))))])
       [0..<tex_count (interop renderer)])
     @ [BindBuffer GL_ARRAY_BUFFER (vertex_buffer_object renderer),
        BufferData GL_ARRAY_BUFFER
          (GLfloats (take (nbVertices m * 3) (snd (vertexCoord m)))),
        BindBuffer GL_ELEMENT_ARRAY_BUFFER (index_buffer_object renderer),
        BufferData GL_ELEMENT_ARRAY_BUFFER
          (GLushorts (take (nbIndices m) (snd (indices m))))]"



text \<open>
  The six vertex numbers \<^verbatim>\<open>BuildSphere\<close> stores for the cell \<open>(lat, lon)\<close>, in the
  order of the stores.
\<close>

definition cell_indices :: "nat \<Rightarrow> nat \<Rightarrow> nat \<Rightarrow> nat list" where
  "cell_indices nbLonBands lat lon =
    (let first = lat * (nbLonBands + 1) + lon;
         second = first + nbLonBands + 1
     in [first, second, first + 1, second, second + 1, first + 1])"

text \<open>
  The position \<^verbatim>\<open>BuildSphere\<close> computes for the vertex \<open>(lat, lon)\<close>, and its three
  stores into the vertex array (\<open>stride\<close> vertices in each row).
\<close>

definition sphere_point :: "nat \<Rightarrow> nat \<Rightarrow> nat \<Rightarrow> nat \<Rightarrow> GLfloat list" where
  "sphere_point nbLatBands nbLonBands lat lon =
    (let theta = real lat * pi / real nbLatBands;
         phi = real lon * 2 * pi / real nbLonBands
     in [SPHERE_RADIUS * (cos phi * sin theta),
         SPHERE_RADIUS * cos theta,
         SPHERE_RADIUS * (sin phi * sin theta)])"

definition vertex_store ::
  "nat \<Rightarrow> (nat \<Rightarrow> nat \<Rightarrow> GLfloat list) \<Rightarrow> nat \<Rightarrow> nat \<Rightarrow> GLfloat list \<Rightarrow> GLfloat list" where
  "vertex_store stride pt lat lon vc =
     vc[lat * stride * 3 + lon * 3 := pt lat lon ! 0,
        lat * stride * 3 + lon * 3 + 1 := pt lat lon ! 1,
        lat * stride * 3 + lon * 3 + 2 := pt lat lon ! 2]"

subsection \<open>Sample values\<close>

text \<open>
  Concrete values at which the theorems below are instantiated: the field of view
  bounded by 20 and 150 degrees, a renderer with one texture plane as
  \<^verbatim>\<open>vlc_gl_renderer_New\<close> leaves it, a full-HD source, and a heap whose requests
  numbered in \<open>failing\<close> fail.
\<close>

definition sample_env :: vlc_env where
  "sample_env =
    \<lparr>FIELD_OF_VIEW_DEGREES_MIN = 20,
     FIELD_OF_VIEW_DEGREES_MAX = 150,
     vlc_viewpoint_reverse =
       (\<lambda>v. \<lparr>yaw = - yaw v, pitch = - pitch v, roll = - roll v, fov = fov v\<rparr>),
     vlc_viewpoint_to_4x4 = (\<lambda>v. identity)\<rparr>"

definition sample_source :: "video_projection_mode_t \<Rightarrow> video_multiview_mode_t \<Rightarrow> video_format_t" where
  "sample_source mode mv =
    \<lparr>i_width = 1920, i_height = 1080, i_x_offset = 0, i_y_offset = 0,
     i_visible_width = 1920, i_visible_height = 1080,
     orientation = ORIENT_NORMAL, projection_mode = mode, multiview_mode = mv,
     i_cubemap_padding = 0\<rparr>"

definition sample_renderer :: "video_projection_mode_t \<Rightarrow> video_multiview_mode_t \<Rightarrow> vlc_gl_renderer" where
  "sample_renderer mode mv =
    \<lparr>interop = \<lparr>tex_count = 1, tex_target = 3553,
                 texs = [\<lparr>w_num = 1, w_den = 1, h_num = 1, h_den = 1\<rparr>],
                 transform_matrix = None\<rparr>,
     fmt = sample_source mode mv,
     program_id = 1,
     textures = [1],
     tex_width = [1920],
     tex_height = [1080],
     vertex_buffer_object = 1,
     index_buffer_object = 2,
     texture_buffer_object = [3],
     nb_indices = 0,
     uloc_TransformMatrix = 0,
     uloc_OrientationMatrix = 1,
     uloc_ProjectionMatrix = 2,
     uloc_ViewMatrix = 3,
     uloc_ZoomMatrix = 4,
     aloc_MultiTexCoord = [1, - 1, - 1],
     aloc_VertexPosition = 0,
     var = \<lparr>OrientationMatrix = identity, ProjectionMatrix = identity,
             ZoomMatrix = identity, ViewMatrix = identity\<rparr>,
     last_source = \<lparr>last_x_offset = 0, last_y_offset = 0,
                     last_visible_width = 0, last_visible_height = 0\<rparr>,
     vp = \<lparr>yaw = 0, pitch = 0, roll = 0, fov = 0\<rparr>,
     f_fovx = 0,
     f_fovy = 0,
     f_z = 0,
     f_sar = 1\<rparr>"

definition sample_viewpoint :: "GLfloat \<Rightarrow> vlc_viewpoint_t" where
  "sample_viewpoint degrees = \<lparr>yaw = 0, pitch = 0, roll = 0, fov = degrees\<rparr>"

definition sample_heap :: "nat list \<Rightarrow> heap" where
  "sample_heap failing =
    \<lparr>oom = (\<lambda>k. k \<in> set failing),
     junk_float = (\<lambda>k i. 0),
     junk_ushort = (\<lambda>k i. 0),
     requests = 0,
     live = {}\<rparr>"

section \<open>Properties\<close>

subsection \<open>Orientation matrix\<close>

text \<open>
  C1. For each of the eight source orientations \<^verbatim>\<open>getOrientationTransformMatrix\<close>
  returns one fixed matrix, whose entries are the integers \<open>- 1\<close>, \<open>0\<close> and \<open>1\<close>: it is
  a table, no angle is computed.
\<close>

theorem getOrientationTransformMatrix_table:
  "getOrientationTransformMatrix ORIENT_NORMAL =
     [1, 0, 0, 0,   0, 1, 0, 0,   0, 0, 1, 0,   0, 0, 0, 1]
   \<and> getOrientationTransformMatrix ORIENT_ROTATED_90 =
     [0, - 1, 0, 0,   1, 0, 0, 0,   0, 0, 1, 0,   0, 1, 0, 1]
   \<and> getOrientationTransformMatrix ORIENT_ROTATED_180 =
     [- 1, 0, 0, 0,   0, - 1, 0, 0,   0, 0, 1, 0,   1, 1, 0, 1]
   \<and> getOrientationTransformMatrix ORIENT_ROTATED_270 =
     [0, 1, 0, 0,   - 1, 0, 0, 0,   0, 0, 1, 0,   1, 0, 0, 1]
   \<and> getOrientationTransformMatrix ORIENT_HFLIPPED =
     [- 1, 0, 0, 0,   0, 1, 0, 0,   0, 0, 1, 0,   1, 0, 0, 1]
   \<and> getOrientationTransformMatrix ORIENT_VFLIPPED =
     [1, 0, 0, 0,   0, - 1, 0, 0,   0, 0, 1, 0,   0, 1, 0, 1]
   \<and> getOrientationTransformMatrix ORIENT_TRANSPOSED =
     [0, 1, 0, 0,   1, 0, 0, 0,   0, 0, - 1, 0,   0, 0, 0, 1]
   \<and> getOrientationTransformMatrix ORIENT_ANTI_TRANSPOSED =
     [0, - 1, 0, 0,   - 1, 0, 0, 0,   0, 0, - 1, 0,   1, 1, 0, 1]"
  by (simp add: getOrientationTransformMatrix_def identity_def)

subsection \<open>Viewpoint matrices\<close>

text \<open>
  C2. In the flat rectangular projection mode \<^verbatim>\<open>getViewpointMatrixes\<close> stores the
  identity as projection, zoom and view matrix, whatever the field of view, the zoom
  and the viewpoint of the renderer are, and changes nothing else.
\<close>

theorem getViewpointMatrixes_flat:
  "getViewpointMatrixes env renderer PROJECTION_MODE_RECTANGULAR =
     renderer\<lparr>var := (var renderer)
       \<lparr>ProjectionMatrix := identity, ZoomMatrix := identity, ViewMatrix := identity\<rparr>\<rparr>
   \<and> ProjectionMatrix (var (getViewpointMatrixes env renderer PROJECTION_MODE_RECTANGULAR))
       = [1, 0, 0, 0,   0, 1, 0, 0,   0, 0, 1, 0,   0, 0, 0, 1]
   \<and> ZoomMatrix (var (getViewpointMatrixes env renderer PROJECTION_MODE_RECTANGULAR))
       = [1, 0, 0, 0,   0, 1, 0, 0,   0, 0, 1, 0,   0, 0, 0, 1]
   \<and> ViewMatrix (var (getViewpointMatrixes env renderer PROJECTION_MODE_RECTANGULAR))
       = [1, 0, 0, 0,   0, 1, 0, 0,   0, 0, 1, 0,   0, 0, 0, 1]"
  by (simp add: getViewpointMatrixes_def identity_def)

subsection \<open>Setting the viewpoint\<close>

text \<open>
  C3. A viewpoint whose field of view is above the maximum or below the minimum is
  refused with \<^verbatim>\<open>VLC_EBADVAR\<close>, and the renderer is returned as it was: the stored
  viewpoint, \<open>f_fovx\<close>, \<open>f_fovy\<close>, \<open>f_z\<close> and the matrices are untouched.
\<close>

theorem SetViewpoint_out_of_range:
  "fov p_vp > FIELD_OF_VIEW_DEGREES_MAX env \<or> fov p_vp < FIELD_OF_VIEW_DEGREES_MIN env
   \<Longrightarrow> vlc_gl_renderer_SetViewpoint env renderer p_vp = (Inl VLC_EBADVAR, renderer)"
  by (simp add: vlc_gl_renderer_SetViewpoint_def)

theorem SetViewpoint_out_of_range_witness:
  "(fov (sample_viewpoint 200) > FIELD_OF_VIEW_DEGREES_MAX sample_env
      \<or> fov (sample_viewpoint 200) < FIELD_OF_VIEW_DEGREES_MIN sample_env)
   \<and> vlc_gl_renderer_SetViewpoint sample_env
        (sample_renderer PROJECTION_MODE_EQUIRECTANGULAR MULTIVIEW_2D) (sample_viewpoint 200)
      = (Inl VLC_EBADVAR, sample_renderer PROJECTION_MODE_EQUIRECTANGULAR MULTIVIEW_2D)"
proof -
  have out: "fov (sample_viewpoint 200) > FIELD_OF_VIEW_DEGREES_MAX sample_env
      \<or> fov (sample_viewpoint 200) < FIELD_OF_VIEW_DEGREES_MIN sample_env"
    by (simp add: sample_viewpoint_def sample_env_def)
  show ?thesis
    using out SetViewpoint_out_of_range [OF out] by simp
qed










subsection \<open>Minimum zoom\<close>

lemma UpdateZ_unfold:
  fixes renderer env
  defines "z \<equiv> - SPHERE_RADIUS / sin (arctan (sqrt
        (tan (f_fovx renderer / 2) * tan (f_fovx renderer / 2)
         + tan (f_fovy renderer / 2) * tan (f_fovy renderer / 2))))"
  defines "f \<equiv> z / ((FIELD_OF_VIEW_DEGREES_MAX env - 90) * pi / 180)"
  shows "f_z (UpdateZ env renderer) =
    (if f_fovx renderer \<le> 90 * pi / 180 then 0
     else if f * f_fovx renderer - f * 90 * pi / 180 < z then z
     else f * f_fovx renderer - f * 90 * pi / 180)"
  unfolding UpdateZ_def Let_def z_def [symmetric] f_def [symmetric]
  by simp

text \<open>
  For a horizontal field of view between 90 and 180 degrees the divisor of \<open>z_min\<close>
  is positive, so \<open>z_min\<close> is a negative number.
\<close>

lemma z_min_negative:
  assumes "pi / 2 < x" "x < pi"
  shows "- SPHERE_RADIUS / sin (arctan (sqrt ((tan (x / 2))\<^sup>2 + (tan (y / 2))\<^sup>2))) < 0"
proof -
  have "0 < tan (x / 2)" using assms by (intro tan_gt_zero) simp_all
  then have "0 < (tan (x / 2))\<^sup>2" by simp
  moreover have "0 \<le> (tan (y / 2))\<^sup>2" by simp
  ultimately have "0 < (tan (x / 2))\<^sup>2 + (tan (y / 2))\<^sup>2" by linarith
  then have "0 < sqrt ((tan (x / 2))\<^sup>2 + (tan (y / 2))\<^sup>2)" by simp
  then have "0 < arctan (sqrt ((tan (x / 2))\<^sup>2 + (tan (y / 2))\<^sup>2))"
    by (simp only: zero_less_arctan_iff)
  moreover have "arctan (sqrt ((tan (x / 2))\<^sup>2 + (tan (y / 2))\<^sup>2)) < pi"
    using arctan_ubound [of "sqrt ((tan (x / 2))\<^sup>2 + (tan (y / 2))\<^sup>2)"] pi_gt_zero
    by linarith
  ultimately have "0 < sin (arctan (sqrt ((tan (x / 2))\<^sup>2 + (tan (y / 2))\<^sup>2)))"
    by (rule sin_gt_zero)
  then show ?thesis by (simp add: SPHERE_RADIUS_def)
qed

text \<open>
  C9. With a maximum field of view between 90 and 180 degrees: \<^verbatim>\<open>UpdateZ\<close> sets
  \<open>f_z\<close> to 0 when the horizontal field of view is at most 90 degrees. Above, with
  \<open>z_min = - radius / sin (arctan (sqrt (tan\<^sup>2 (fovx / 2) + tan\<^sup>2 (fovy / 2))))\<close>,
  \<open>f_z\<close> is the value at \<open>fovx\<close> of the line through 0 at 90 degrees and \<open>z_min\<close> at the
  maximum, replaced by \<open>z_min\<close> when it is below it; up to the maximum field of view
  the line is not below \<open>z_min\<close>, and at the maximum \<open>f_z\<close> is \<open>z_min\<close>.
\<close>

theorem UpdateZ_zoom:
  assumes "90 < FIELD_OF_VIEW_DEGREES_MAX env" "FIELD_OF_VIEW_DEGREES_MAX env < 180"
  shows
  "(let z_min = - SPHERE_RADIUS / sin (arctan (sqrt
        ((tan (f_fovx renderer / 2))\<^sup>2 + (tan (f_fovy renderer / 2))\<^sup>2)));
        f = z_min / ((FIELD_OF_VIEW_DEGREES_MAX env - 90) * pi / 180)
    in (f_fovx renderer \<le> 90 * pi / 180 \<longrightarrow> f_z (UpdateZ env renderer) = 0)
     \<and> (90 * pi / 180 < f_fovx renderer \<and> f_fovx renderer < pi \<longrightarrow>
          z_min < 0
          \<and> f_z (UpdateZ env renderer) = max z_min (f * f_fovx renderer - f * 90 * pi / 180))
     \<and> (90 * pi / 180 < f_fovx renderer
          \<and> f_fovx renderer \<le> FIELD_OF_VIEW_DEGREES_MAX env * pi / 180 \<longrightarrow>
          f_z (UpdateZ env renderer) = f * f_fovx renderer - f * 90 * pi / 180)
     \<and> (f_fovx renderer = FIELD_OF_VIEW_DEGREES_MAX env * pi / 180 \<longrightarrow>
          f_z (UpdateZ env renderer) = z_min))"
proof -
  define z_min where "z_min = - SPHERE_RADIUS / sin (arctan (sqrt
        ((tan (f_fovx renderer / 2))\<^sup>2 + (tan (f_fovy renderer / 2))\<^sup>2)))"
  define d where "d = (FIELD_OF_VIEW_DEGREES_MAX env - 90) * pi / 180"
  define f where "f = z_min / d"
  have d0: "0 < d" using assms(1) by (simp add: d_def)
  have maxpi: "FIELD_OF_VIEW_DEGREES_MAX env * pi / 180 < pi"
  proof -
    have "FIELD_OF_VIEW_DEGREES_MAX env * pi < 180 * pi"
      using assms(2) pi_gt_zero by (intro mult_strict_right_mono) simp_all
    then show ?thesis by simp
  qed
  have maxd: "FIELD_OF_VIEW_DEGREES_MAX env * pi / 180 - 90 * pi / 180 = d"
    by (simp add: d_def algebra_simps diff_divide_distrib)
  have lin: "f * f_fovx renderer - f * 90 * pi / 180 = f * (f_fovx renderer - 90 * pi / 180)"
    by (simp add: algebra_simps)
  have fd: "f * d = z_min" using d0 by (simp add: f_def)
  have U: "f_z (UpdateZ env renderer) =
    (if f_fovx renderer \<le> 90 * pi / 180 then 0
     else if f * f_fovx renderer - f * 90 * pi / 180 < z_min then z_min
     else f * f_fovx renderer - f * 90 * pi / 180)"
    unfolding f_def d_def z_min_def power2_eq_square by (rule UpdateZ_unfold)
  have low: "f_z (UpdateZ env renderer) = 0" if "f_fovx renderer \<le> 90 * pi / 180"
    using that U by simp
  have high: "f_z (UpdateZ env renderer) = max z_min (f * f_fovx renderer - f * 90 * pi / 180)"
    if "90 * pi / 180 < f_fovx renderer"
    using that U by (simp add: max_def)
  have neg: "z_min < 0" if "90 * pi / 180 < f_fovx renderer" "f_fovx renderer < pi"
    unfolding z_min_def using that by (intro z_min_negative) simp_all
  have mid: "f_z (UpdateZ env renderer) = f * f_fovx renderer - f * 90 * pi / 180"
    if "90 * pi / 180 < f_fovx renderer" "f_fovx renderer \<le> FIELD_OF_VIEW_DEGREES_MAX env * pi / 180"
  proof -
    have "f_fovx renderer < pi" using that(2) maxpi by linarith
    then have "z_min < 0" using neg that(1) by simp
    then have f0: "f < 0" using d0 by (simp add: f_def divide_neg_pos)
    have "f_fovx renderer - 90 * pi / 180 \<le> d" using that(2) maxd by linarith
    then have "f * d \<le> f * (f_fovx renderer - 90 * pi / 180)"
      using f0 by (intro mult_left_mono_neg) simp_all
    then have "z_min \<le> f * f_fovx renderer - f * 90 * pi / 180" unfolding fd lin .
    then show ?thesis using high [OF that(1)] by (simp add: max_def)
  qed
  have top: "f_z (UpdateZ env renderer) = z_min"
    if "f_fovx renderer = FIELD_OF_VIEW_DEGREES_MAX env * pi / 180"
  proof -
    have "f_fovx renderer - 90 * pi / 180 = d" unfolding that by (rule maxd)
    then have gt: "90 * pi / 180 < f_fovx renderer" using d0 by linarith
    have "f * f_fovx renderer - f * 90 * pi / 180 = z_min"
      unfolding lin \<open>f_fovx renderer - 90 * pi / 180 = d\<close> by (rule fd)
    then show ?thesis using mid [OF gt] that by simp
  qed
  show ?thesis
    unfolding Let_def z_min_def [symmetric] d_def [symmetric] f_def [symmetric]
    using low high neg mid top by blast
qed

theorem UpdateZ_zoom_witness:
  "90 < FIELD_OF_VIEW_DEGREES_MAX sample_env \<and> FIELD_OF_VIEW_DEGREES_MAX sample_env < 180
   \<and> f_fovx (sample_renderer PROJECTION_MODE_EQUIRECTANGULAR MULTIVIEW_2D) \<le> 90 * pi / 180
   \<and> f_z (UpdateZ sample_env (sample_renderer PROJECTION_MODE_EQUIRECTANGULAR MULTIVIEW_2D)) = 0
   \<and> 90 * pi / 180
        < f_fovx ((sample_renderer PROJECTION_MODE_EQUIRECTANGULAR MULTIVIEW_2D)
                     \<lparr>f_fovx := 150 * pi / 180, f_fovy := pi / 2\<rparr>)
   \<and> f_fovx ((sample_renderer PROJECTION_MODE_EQUIRECTANGULAR MULTIVIEW_2D)
                \<lparr>f_fovx := 150 * pi / 180, f_fovy := pi / 2\<rparr>) < pi
   \<and> f_fovx ((sample_renderer PROJECTION_MODE_EQUIRECTANGULAR MULTIVIEW_2D)
                \<lparr>f_fovx := 150 * pi / 180, f_fovy := pi / 2\<rparr>)
       = FIELD_OF_VIEW_DEGREES_MAX sample_env * pi / 180
   \<and> f_z (UpdateZ sample_env
            ((sample_renderer PROJECTION_MODE_EQUIRECTANGULAR MULTIVIEW_2D)
               \<lparr>f_fovx := 150 * pi / 180, f_fovy := pi / 2\<rparr>))
       = - SPHERE_RADIUS / sin (arctan (sqrt
            ((tan (150 * pi / 180 / 2))\<^sup>2 + (tan (pi / 2 / 2))\<^sup>2)))
   \<and> f_z (UpdateZ sample_env
            ((sample_renderer PROJECTION_MODE_EQUIRECTANGULAR MULTIVIEW_2D)
               \<lparr>f_fovx := 150 * pi / 180, f_fovy := pi / 2\<rparr>)) < 0"
proof -
  let ?r0 = "sample_renderer PROJECTION_MODE_EQUIRECTANGULAR MULTIVIEW_2D"
  let ?r1 = "?r0\<lparr>f_fovx := 150 * pi / 180, f_fovy := pi / 2\<rparr>"
  have env: "90 < FIELD_OF_VIEW_DEGREES_MAX sample_env"
    "FIELD_OF_VIEW_DEGREES_MAX sample_env < 180"
    by (simp_all add: sample_env_def)
  have a: "f_fovx ?r0 \<le> 90 * pi / 180" by (simp add: sample_renderer_def)
  have b: "f_fovx ?r1 = FIELD_OF_VIEW_DEGREES_MAX sample_env * pi / 180"
    by (simp add: sample_env_def)
  have c: "90 * pi / 180 < f_fovx ?r1" "f_fovx ?r1 < pi" by simp_all
  have "f_z (UpdateZ sample_env ?r0) = 0"
    using UpdateZ_zoom [OF env, of ?r0] a unfolding Let_def by blast
  moreover have "f_z (UpdateZ sample_env ?r1)
       = - SPHERE_RADIUS / sin (arctan (sqrt
            ((tan (f_fovx ?r1 / 2))\<^sup>2 + (tan (f_fovy ?r1 / 2))\<^sup>2)))"
    using UpdateZ_zoom [OF env, of ?r1] b unfolding Let_def by blast
  moreover have "- SPHERE_RADIUS / sin (arctan (sqrt
            ((tan (f_fovx ?r1 / 2))\<^sup>2 + (tan (f_fovy ?r1 / 2))\<^sup>2))) < 0"
    using UpdateZ_zoom [OF env, of ?r1] c unfolding Let_def by blast
  ultimately show ?thesis using env a b c by simp
qed

subsection \<open>The sphere mesh\<close>

text \<open>
  A loop that stores one block of \<open>w\<close> cells at each turn, the blocks one after the
  other from \<open>b\<close>: after \<open>m\<close> turns the first \<open>m\<close> blocks hold what was stored and
  every other cell is as before.
\<close>

lemma fold_blocks:
  fixes f :: "nat \<Rightarrow> 'a list \<Rightarrow> 'a list"
  assumes len: "\<And>i xs. length (f i xs) = length xs"
    and wr: "\<And>i j xs. j < w \<Longrightarrow> b + i * w + j < length xs \<Longrightarrow> f i xs ! (b + i * w + j) = g i j"
    and keep: "\<And>i k xs. k < length xs \<Longrightarrow> k < b + i * w \<or> b + Suc i * w \<le> k \<Longrightarrow> f i xs ! k = xs ! k"
  shows "length (fold f [0..<m] xs) = length xs
    \<and> (\<forall>i<m. \<forall>j<w. b + i * w + j < length xs \<longrightarrow> fold f [0..<m] xs ! (b + i * w + j) = g i j)
    \<and> (\<forall>k<length xs. k < b \<or> b + m * w \<le> k \<longrightarrow> fold f [0..<m] xs ! k = xs ! k)"
proof (induction m)
  case 0
  show ?case by simp
next
  case (Suc m)
  let ?F = "fold f [0..<m] xs"
  have step: "fold f [0..<Suc m] xs = f m ?F" by simp
  from Suc.IH have L: "length ?F = length xs"
    and W: "\<And>i j. i < m \<Longrightarrow> j < w \<Longrightarrow> b + i * w + j < length xs \<Longrightarrow> ?F ! (b + i * w + j) = g i j"
    and K: "\<And>k. k < length xs \<Longrightarrow> k < b \<or> b + m * w \<le> k \<Longrightarrow> ?F ! k = xs ! k"
    by blast+
  have c1: "length (f m ?F) = length xs" using len L by simp
  have c2: "f m ?F ! (b + i * w + j) = g i j"
    if "i < Suc m" "j < w" "b + i * w + j < length xs" for i j
  proof (cases "i = m")
    case True
    then show ?thesis using wr [of j m ?F] that L by simp
  next
    case False
    with that have im: "i < m" by simp
    then have "Suc i * w \<le> m * w" by (intro mult_le_mono1) simp
    then have "b + i * w + j < b + m * w" using that(2) by simp
    then have "f m ?F ! (b + i * w + j) = ?F ! (b + i * w + j)"
      using keep [of "b + i * w + j" ?F m] that(3) L by simp
    then show ?thesis using W [OF im that(2) that(3)] by simp
  qed
  have c3: "f m ?F ! k = xs ! k" if "k < length xs" "k < b \<or> b + Suc m * w \<le> k" for k
  proof -
    have "k < b + m * w \<or> b + Suc m * w \<le> k" using that(2) by auto
    then have "f m ?F ! k = ?F ! k" using keep [of k ?F m] that(1) L by simp
    moreover have "k < b \<or> b + m * w \<le> k" using that(2) by auto
    ultimately show ?thesis using K [OF that(1)] by simp
  qed
  show ?case unfolding step using c1 c2 c3 by blast
qed


lemma update6_nth:
  assumes "j < 6" "off + j < length xs"
  shows "xs[off := a0, off + 1 := a1, off + 2 := a2, off + 3 := a3, off + 4 := a4,
            off + 5 := a5] ! (off + j) = [a0, a1, a2, a3, a4, a5] ! j"
proof -
  from assms(1) consider "j = 0" | "j = 1" | "j = 2" | "j = 3" | "j = 4" | "j = 5"
    by linarith
  then show ?thesis using assms(2) by cases simp_all
qed

lemma update6_keep:
  assumes "k < off \<or> off + 6 \<le> k"
  shows "xs[off := a0, off + 1 := a1, off + 2 := a2, off + 3 := a3, off + 4 := a4,
            off + 5 := a5] ! k = xs ! k"
  using assms by auto

lemma sphere_index_cell_eq:
  "sphere_index_cell nLat nLon lat lon ix =
     ix[lat * nLat * 6 + lon * 6 := of_nat (cell_indices nLon lat lon ! 0),
        lat * nLat * 6 + lon * 6 + 1 := of_nat (cell_indices nLon lat lon ! 1),
        lat * nLat * 6 + lon * 6 + 2 := of_nat (cell_indices nLon lat lon ! 2),
        lat * nLat * 6 + lon * 6 + 3 := of_nat (cell_indices nLon lat lon ! 3),
        lat * nLat * 6 + lon * 6 + 4 := of_nat (cell_indices nLon lat lon ! 4),
        lat * nLat * 6 + lon * 6 + 5 := of_nat (cell_indices nLon lat lon ! 5)]"
proof -
  have off: "(lat * nLat + lon) * 3 * 2 = lat * nLat * 6 + lon * 6" by simp
  have vals: "cell_indices nLon lat lon ! 0 = lat * (nLon + 1) + lon"
    "cell_indices nLon lat lon ! 1 = lat * (nLon + 1) + lon + nLon + 1"
    "cell_indices nLon lat lon ! 2 = lat * (nLon + 1) + lon + 1"
    "cell_indices nLon lat lon ! 3 = lat * (nLon + 1) + lon + nLon + 1"
    "cell_indices nLon lat lon ! 4 = lat * (nLon + 1) + lon + nLon + 1 + 1"
    "cell_indices nLon lat lon ! 5 = lat * (nLon + 1) + lon + 1"
    by (simp_all add: cell_indices_def Let_def)
  show ?thesis
    unfolding sphere_index_cell_def Let_def off vals ..
qed

lemma sphere_index_cell_length:
  "length (sphere_index_cell nLat nLon lat lon ix) = length ix"
  by (simp add: sphere_index_cell_def Let_def)

lemma sphere_index_cell_write:
  assumes "j < 6" "lat * nLat * 6 + lon * 6 + j < length ix"
  shows "sphere_index_cell nLat nLon lat lon ix ! (lat * nLat * 6 + lon * 6 + j)
         = of_nat (cell_indices nLon lat lon ! j)"
proof -
  from assms(1) consider "j = 0" | "j = 1" | "j = 2" | "j = 3" | "j = 4" | "j = 5"
    by linarith
  then have "[of_nat (cell_indices nLon lat lon ! 0), of_nat (cell_indices nLon lat lon ! 1),
      of_nat (cell_indices nLon lat lon ! 2), of_nat (cell_indices nLon lat lon ! 3),
      of_nat (cell_indices nLon lat lon ! 4), of_nat (cell_indices nLon lat lon ! 5)] ! j
      = (of_nat (cell_indices nLon lat lon ! j) :: GLushort)"
    by cases simp_all
  then show ?thesis
    unfolding sphere_index_cell_eq using update6_nth [OF assms] by simp
qed

lemma sphere_index_cell_keep:
  assumes "k < length ix" "k < lat * nLat * 6 + lon * 6 \<or> lat * nLat * 6 + Suc lon * 6 \<le> k"
  shows "sphere_index_cell nLat nLon lat lon ix ! k = ix ! k"
proof -
  have "k < lat * nLat * 6 + lon * 6 \<or> lat * nLat * 6 + lon * 6 + 6 \<le> k"
    using assms(2) by auto
  then show ?thesis unfolding sphere_index_cell_eq by (rule update6_keep)
qed

lemma sphere_index_row:
  "length (fold (sphere_index_cell nLat nLon lat) [0..<m] ix) = length ix
   \<and> (\<forall>lon<m. \<forall>j<6. lat * nLat * 6 + lon * 6 + j < length ix \<longrightarrow>
        fold (sphere_index_cell nLat nLon lat) [0..<m] ix ! (lat * nLat * 6 + lon * 6 + j)
        = of_nat (cell_indices nLon lat lon ! j))
   \<and> (\<forall>k<length ix. k < lat * nLat * 6 \<or> lat * nLat * 6 + m * 6 \<le> k \<longrightarrow>
        fold (sphere_index_cell nLat nLon lat) [0..<m] ix ! k = ix ! k)"
  by (rule fold_blocks [where f = "sphere_index_cell nLat nLon lat" and w = 6
        and b = "lat * nLat * 6" and g = "\<lambda>lon j. of_nat (cell_indices nLon lat lon ! j)"])
     (simp_all add: sphere_index_cell_length sphere_index_cell_write sphere_index_cell_keep)

lemma sphere_index_loop_rows:
  "length (sphere_index_loop n n ix) = length ix
   \<and> (\<forall>lat<n. \<forall>j<n * 6. 0 + lat * (n * 6) + j < length ix \<longrightarrow>
        sphere_index_loop n n ix ! (0 + lat * (n * 6) + j)
        = of_nat (cell_indices n lat (j div 6) ! (j mod 6)))
   \<and> (\<forall>k<length ix. k < 0 \<or> 0 + n * (n * 6) \<le> k \<longrightarrow>
        sphere_index_loop n n ix ! k = ix ! k)"
  unfolding sphere_index_loop_def
proof (rule fold_blocks [where f = "\<lambda>lat. fold (sphere_index_cell n n lat) [0..<n]"
        and w = "n * 6" and b = 0
        and g = "\<lambda>lat j. of_nat (cell_indices n lat (j div 6) ! (j mod 6))"], goal_cases)
  case (1 lat ix)
  show ?case using sphere_index_row [of n n lat n ix] by simp
next
  case (2 lat j ix)
  have lon: "j div 6 < n" using 2(1) by (simp add: less_mult_imp_div_less)
  have j6: "j mod 6 < 6" by simp
  have eq: "lat * n * 6 + (j div 6) * 6 + j mod 6 = 0 + lat * (n * 6) + j"
    by (simp add: mult.assoc)
  show ?case
    using sphere_index_row [of n n lat n ix] lon j6 2(2) unfolding eq [symmetric]
    by blast
next
  case (3 lat k ix)
  have "k < lat * n * 6 \<or> lat * n * 6 + n * 6 \<le> k"
    using 3(2) by (simp add: mult.assoc add.commute)
  then show ?case using sphere_index_row [of n n lat n ix] 3(1) by blast
qed

lemma cell_indices_bound:
  assumes "lat < n" "lon < n" "j < 6"
  shows "cell_indices n lat lon ! j < (n + 1) * (n + 1)"
proof -
  have "Suc lat * (n + 1) \<le> n * (n + 1)" using assms(1) by (intro mult_le_mono1) simp
  then have "lat * (n + 1) + lon + n + 2 < (n + 1) * (n + 1)" using assms(2) by simp
  then have "\<forall>x\<in>set (cell_indices n lat lon). x < (n + 1) * (n + 1)"
    by (simp add: cell_indices_def Let_def)
  moreover have "j < length (cell_indices n lat lon)"
    using assms(3) by (simp add: cell_indices_def Let_def)
  ultimately show ?thesis using nth_mem by blast
qed

lemma sphere_index_loop_nth:
  assumes "k < n * n * 6" "n * n * 6 \<le> length ix"
  shows "sphere_index_loop n n ix ! k
         = of_nat (cell_indices n (k div (n * 6)) (k mod (n * 6) div 6) ! (k mod 6))"
proof -
  let ?lat = "k div (n * 6)" and ?j = "k mod (n * 6)"
  have n0: "0 < n * 6" using assms(1) by (cases n) auto
  have lat: "?lat < n" using assms(1) by (simp add: less_mult_imp_div_less mult.assoc mult.commute)
  have j: "?j < n * 6" using n0 by simp
  have k: "0 + ?lat * (n * 6) + ?j = k" by (simp only: add_0 div_mult_mod_eq)
  have j6: "?j mod 6 = k mod 6" by (simp add: mod_mod_cancel)
  have R: "\<And>lat j. lat < n \<Longrightarrow> j < n * 6 \<Longrightarrow> 0 + lat * (n * 6) + j < length ix \<Longrightarrow>
        sphere_index_loop n n ix ! (0 + lat * (n * 6) + j)
        = of_nat (cell_indices n lat (j div 6) ! (j mod 6))"
    using sphere_index_loop_rows [of n ix] by blast
  have "0 + ?lat * (n * 6) + ?j < length ix" unfolding k using assms by simp
  from R [OF lat j this] show ?thesis unfolding k j6 .
qed

lemma sphere_index_loop_bound:
  assumes "k < n * n * 6" "n * n * 6 \<le> length ix"
  shows "\<exists>v < (n + 1) * (n + 1). sphere_index_loop n n ix ! k = of_nat v"
proof -
  have n0: "0 < n * 6" using assms(1) by (cases n) auto
  have lat: "k div (n * 6) < n"
    using assms(1) by (simp add: less_mult_imp_div_less mult.assoc mult.commute)
  have "k mod (n * 6) < n * 6" using n0 by simp
  then have lon: "k mod (n * 6) div 6 < n" by (simp add: less_mult_imp_div_less)
  have "cell_indices n (k div (n * 6)) (k mod (n * 6) div 6) ! (k mod 6) < (n + 1) * (n + 1)"
    by (rule cell_indices_bound [OF lat lon]) simp
  then show ?thesis using sphere_index_loop_nth [OF assms] by blast
qed


lemma fst_fold_pair:
  assumes "\<And>i a b. fst (f i (a, b)) = F i a"
  shows "fst (fold f xs (a0, b0)) = fold F xs a0"
proof (induction xs arbitrary: a0 b0)
  case Nil
  show ?case by simp
next
  case (Cons x xs)
  obtain a1 b1 where step: "f x (a0, b0) = (a1, b1)" by (cases "f x (a0, b0)")
  then have "a1 = F x a0" using assms [of x a0 b0] by simp
  then show ?case using Cons.IH [of a1 b1] step by simp
qed

lemma update3_nth:
  assumes "j < 3" "off + j < length xs"
  shows "xs[off := a0, off + 1 := a1, off + 2 := a2] ! (off + j) = [a0, a1, a2] ! j"
proof -
  from assms(1) consider "j = 0" | "j = 1" | "j = 2" by linarith
  then show ?thesis using assms(2) by cases simp_all
qed

lemma update3_keep:
  assumes "k < off \<or> off + 3 \<le> k"
  shows "xs[off := a0, off + 1 := a1, off + 2 := a2] ! k = xs ! k"
  using assms by auto

lemma sphere_lon_loop_fst:
  "fst (sphere_lon_loop nbPlanes nLat nLon lat (sin (real lat * pi / real nLat))
          (cos (real lat * pi / real nLat)) left top' right bottom (vc, tc))
   = fold (vertex_store (nLon + 1) (sphere_point nLat nLon) lat) [0..<nLon + 1] vc"
  unfolding sphere_lon_loop_def
proof (rule fst_fold_pair)
  fix lon a b
  have off: "(lat * (nLon + 1) + lon) * 3 = lat * (nLon + 1) * 3 + lon * 3"
    by (simp add: algebra_simps)
  show "fst ((case (a, b) of (vc, tc) \<Rightarrow>
          let phi = real lon * 2 * pi / real nLon;
              sinPhi = sin phi;
              cosPhi = cos phi;
              x = cosPhi * sin (real lat * pi / real nLat);
              y = cos (real lat * pi / real nLat);
              z = sinPhi * sin (real lat * pi / real nLat);
              off1 = (lat * (nLon + 1) + lon) * 3
          in (vc[off1 := SPHERE_RADIUS * x,
                 off1 + 1 := SPHERE_RADIUS * y,
                 off1 + 2 := SPHERE_RADIUS * z],
              sphere_planes nbPlanes nLat nLon lat lon left top' right bottom tc)))
        = vertex_store (nLon + 1) (sphere_point nLat nLon) lat lon a"
    unfolding Let_def off vertex_store_def sphere_point_def by simp
qed

lemma sphere_lat_loop_fst:
  "fst (sphere_lat_loop nbPlanes nLat nLon left top' right bottom (vc, tc))
   = fold (\<lambda>lat. fold (vertex_store (nLon + 1) (sphere_point nLat nLon) lat) [0..<nLon + 1])
       [0..<nLat + 1] vc"
  unfolding sphere_lat_loop_def
  by (rule fst_fold_pair) (simp add: Let_def sphere_lon_loop_fst)

lemma vertex_store_length:
  "length (vertex_store sd pt lat lon vc) = length vc"
  by (simp add: vertex_store_def)

lemma vertex_store_write:
  assumes "j < 3" "lat * sd * 3 + lon * 3 + j < length vc"
  shows "vertex_store sd pt lat lon vc ! (lat * sd * 3 + lon * 3 + j) = pt lat lon ! j"
proof -
  from assms(1) consider "j = 0" | "j = 1" | "j = 2" by linarith
  then have "[pt lat lon ! 0, pt lat lon ! 1, pt lat lon ! 2] ! j = pt lat lon ! j"
    by cases simp_all
  then show ?thesis
    unfolding vertex_store_def using update3_nth [OF assms] by simp
qed

lemma vertex_store_keep:
  assumes "k < length vc"
    "k < lat * sd * 3 + lon * 3 \<or> lat * sd * 3 + Suc lon * 3 \<le> k"
  shows "vertex_store sd pt lat lon vc ! k = vc ! k"
proof -
  have "k < lat * sd * 3 + lon * 3 \<or> lat * sd * 3 + lon * 3 + 3 \<le> k"
    using assms(2) by auto
  then show ?thesis unfolding vertex_store_def by (rule update3_keep)
qed

lemma sphere_vertex_row:
  "length (fold (vertex_store sd pt lat) [0..<m] vc) = length vc
   \<and> (\<forall>lon<m. \<forall>j<3. lat * sd * 3 + lon * 3 + j < length vc \<longrightarrow>
        fold (vertex_store sd pt lat) [0..<m] vc ! (lat * sd * 3 + lon * 3 + j)
        = pt lat lon ! j)
   \<and> (\<forall>k<length vc. k < lat * sd * 3 \<or> lat * sd * 3 + m * 3 \<le> k \<longrightarrow>
        fold (vertex_store sd pt lat) [0..<m] vc ! k = vc ! k)"
  by (rule fold_blocks [where f = "vertex_store sd pt lat" and w = 3
        and b = "lat * sd * 3" and g = "\<lambda>lon j. pt lat lon ! j"])
     (simp_all add: vertex_store_length vertex_store_write vertex_store_keep)

lemma sphere_vertex_rows:
  "length (fold (\<lambda>lat. fold (vertex_store sd pt lat) [0..< sd]) [0..<m] vc) = length vc
   \<and> (\<forall>lat<m. \<forall>j< sd * 3. 0 + lat * (sd * 3) + j < length vc \<longrightarrow>
        fold (\<lambda>lat. fold (vertex_store sd pt lat) [0..< sd]) [0..<m] vc
          ! (0 + lat * (sd * 3) + j)
        = pt lat (j div 3) ! (j mod 3))
   \<and> (\<forall>k<length vc. k < 0 \<or> 0 + m * (sd * 3) \<le> k \<longrightarrow>
        fold (\<lambda>lat. fold (vertex_store sd pt lat) [0..< sd]) [0..<m] vc ! k = vc ! k)"
proof (rule fold_blocks [where f = "\<lambda>lat. fold (vertex_store sd pt lat) [0..< sd]"
        and w = "sd * 3" and b = 0
        and g = "\<lambda>lat j. pt lat (j div 3) ! (j mod 3)"], goal_cases)
  case (1 lat vc)
  show ?case using sphere_vertex_row [of sd pt lat sd vc] by simp
next
  case (2 lat j vc)
  have lon: "j div 3 < sd" using 2(1) by (simp add: less_mult_imp_div_less)
  have j3: "j mod 3 < 3" by simp
  have eq: "lat * sd * 3 + (j div 3) * 3 + j mod 3 = 0 + lat * (sd * 3) + j"
    by (simp add: mult.assoc)
  show ?case
    using sphere_vertex_row [of sd pt lat sd vc] lon j3 2(2)
    unfolding eq [symmetric] by blast
next
  case (3 lat k vc)
  have "k < lat * sd * 3 \<or> lat * sd * 3 + sd * 3 \<le> k"
    using 3(2) by (simp add: mult.assoc add.commute)
  then show ?case using sphere_vertex_row [of sd pt lat sd vc] 3(1) by blast
qed

lemma vertex_rows_nth:
  assumes "lat < m" "lon < sd" "j < 3" "m * sd * 3 \<le> length vc"
  shows "fold (\<lambda>lat. fold (vertex_store sd pt lat) [0..< sd]) [0..<m] vc
           ! ((lat * sd + lon) * 3 + j) = pt lat lon ! j"
proof -
  let ?F = "fold (\<lambda>lat. fold (vertex_store sd pt lat) [0..< sd]) [0..<m] vc"
  let ?j = "lon * 3 + j"
  have jw: "?j < sd * 3" using assms(2,3) by simp
  have d: "?j div 3 = lon" using assms(3) by simp
  have md: "?j mod 3 = j" using assms(3) by simp
  have idx: "0 + lat * (sd * 3) + ?j = (lat * sd + lon) * 3 + j"
    by (simp add: algebra_simps)
  have "Suc lat * (sd * 3) \<le> m * (sd * 3)"
    using assms(1) by (intro mult_le_mono1) simp
  then have "0 + lat * (sd * 3) + ?j < m * (sd * 3)" using jw by simp
  then have inb: "0 + lat * (sd * 3) + ?j < length vc" using assms(4) by (simp add: mult.assoc)
  have R: "\<And>lat j. lat < m \<Longrightarrow> j < sd * 3 \<Longrightarrow> 0 + lat * (sd * 3) + j < length vc \<Longrightarrow>
        ?F ! (0 + lat * (sd * 3) + j) = pt lat (j div 3) ! (j mod 3)"
    using sphere_vertex_rows [of sd pt m vc] by blast
  from R [OF assms(1) jw inb] show ?thesis unfolding d md idx .
qed

lemma sphere_vertices_nth:
  assumes "lat \<le> nLat" "lon \<le> nLon" "j < 3" "(nLat + 1) * (nLon + 1) * 3 \<le> length vc"
  shows "fst (sphere_lat_loop nbPlanes nLat nLon left top' right bottom (vc, tc))
           ! ((lat * (nLon + 1) + lon) * 3 + j)
         = sphere_point nLat nLon lat lon ! j"
  unfolding sphere_lat_loop_fst
  by (rule vertex_rows_nth) (use assms in simp_all)

lemma sphere_vertices_length:
  "length (fst (sphere_lat_loop nbPlanes nLat nLon left top' right bottom (vc, tc)))
    = length vc"
  unfolding sphere_lat_loop_fst
  using sphere_vertex_rows [of "nLon + 1" "sphere_point nLat nLon" "nLat + 1" vc] by blast

lemma sphere_point_norm:
  "(sphere_point nLat nLon lat lon ! 0)\<^sup>2 + (sphere_point nLat nLon lat lon ! 1)\<^sup>2
     + (sphere_point nLat nLon lat lon ! 2)\<^sup>2 = SPHERE_RADIUS\<^sup>2"
proof -
  have "(cos p * sin t)\<^sup>2 + (cos t)\<^sup>2 + (sin p * sin t)\<^sup>2 = (1::real)" for p t :: real
  proof -
    have a: "(cos p)\<^sup>2 = 1 - (sin p)\<^sup>2" by (simp add: cos_squared_eq)
    have b: "(cos t)\<^sup>2 = 1 - (sin t)\<^sup>2" by (simp add: cos_squared_eq)
    show ?thesis unfolding power_mult_distrib a b by (simp add: algebra_simps)
  qed
  then show ?thesis by (simp add: sphere_point_def Let_def SPHERE_RADIUS_def)
qed


lemma vlc_alloc_ok:
  "\<not> oom h (requests h) \<Longrightarrow>
   vlc_alloc junk h c =
     (Some (requests h, map (junk h (requests h)) [0..<c]),
      h\<lparr>requests := Suc (requests h), live := insert (requests h) (live h)\<rparr>)"
  by (simp add: vlc_alloc_def Let_def)

lemma vlc_alloc_fail:
  "oom h (requests h) \<Longrightarrow> vlc_alloc junk h c = (None, h\<lparr>requests := Suc (requests h)\<rparr>)"
  by (simp add: vlc_alloc_def Let_def)

lemma BuildSphere_success:
  assumes "\<not> oom h (requests h)" "\<not> oom h (Suc (requests h))"
    "\<not> oom h (Suc (Suc (requests h)))"
  shows "BuildSphere nbPlanes left top' right bottom h =
    (Inr \<lparr>vertexCoord = (requests h,
             fst (sphere_lat_loop nbPlanes 128 128 left top' right bottom
               (map (junk_float h (requests h)) [0..<49923],
                map (junk_float h (Suc (requests h))) [0..<nbPlanes * 16641 * 2]))),
           textureCoord = (Suc (requests h),
             snd (sphere_lat_loop nbPlanes 128 128 left top' right bottom
               (map (junk_float h (requests h)) [0..<49923],
                map (junk_float h (Suc (requests h))) [0..<nbPlanes * 16641 * 2]))),
           nbVertices = 16641,
           indices = (Suc (Suc (requests h)),
             sphere_index_loop 128 128
               (map (junk_ushort h (Suc (Suc (requests h)))) [0..<98304])),
           nbIndices = 98304\<rparr>,
     h\<lparr>requests := Suc (Suc (Suc (requests h))),
       live := insert (Suc (Suc (requests h)))
                 (insert (Suc (requests h)) (insert (requests h) (live h)))\<rparr>)"
  using assms
  by (simp add: BuildSphere_def vlc_alloc_ok Let_def split_def)


text \<open>
  C5. When its three allocations succeed, \<^verbatim>\<open>BuildSphere\<close> returns a mesh of
  \<open>129 * 129 = 16641\<close> vertices and \<open>128 * 128 * 6 = 98304\<close> indices; the vertex of
  band \<open>(lat, lon)\<close> is \<open>radius * (cos \<phi> * sin \<theta>, cos \<theta>, sin \<phi> * sin \<theta>)\<close> with
  \<open>\<theta> = lat * pi / 128\<close> and \<open>\<phi> = lon * 2 * pi / 128\<close>, and every vertex is at
  distance \<open>radius = 1\<close> from the origin (exactly so in real arithmetic).
\<close>

theorem BuildSphere_geometry:
  assumes "\<not> oom h (requests h)" "\<not> oom h (Suc (requests h))"
    "\<not> oom h (Suc (Suc (requests h)))"
  shows "\<exists>m h'. BuildSphere nbPlanes left top' right bottom h = (Inr m, h')
    \<and> nbVertices m = 16641 \<and> nbIndices m = 98304
    \<and> length (snd (vertexCoord m)) = 3 * nbVertices m
    \<and> length (snd (indices m)) = nbIndices m
    \<and> (\<forall>lat\<le>128. \<forall>lon\<le>128.
          snd (vertexCoord m) ! ((lat * 129 + lon) * 3)
            = SPHERE_RADIUS * (cos (real lon * 2 * pi / 128) * sin (real lat * pi / 128))
        \<and> snd (vertexCoord m) ! ((lat * 129 + lon) * 3 + 1)
            = SPHERE_RADIUS * cos (real lat * pi / 128)
        \<and> snd (vertexCoord m) ! ((lat * 129 + lon) * 3 + 2)
            = SPHERE_RADIUS * (sin (real lon * 2 * pi / 128) * sin (real lat * pi / 128)))
    \<and> (\<forall>v<nbVertices m.
          sqrt ((snd (vertexCoord m) ! (v * 3))\<^sup>2 + (snd (vertexCoord m) ! (v * 3 + 1))\<^sup>2
                + (snd (vertexCoord m) ! (v * 3 + 2))\<^sup>2) = SPHERE_RADIUS)"
proof -
  let ?vca = "map (junk_float h (requests h)) [0..<49923]"
  let ?tca = "map (junk_float h (Suc (requests h))) [0..<nbPlanes * 16641 * 2]"
  let ?vc = "fst (sphere_lat_loop nbPlanes 128 128 left top' right bottom (?vca, ?tca))"
  let ?ix = "sphere_index_loop 128 128
               (map (junk_ushort h (Suc (Suc (requests h)))) [0..<98304])"
  have lv: "length ?vc = 49923" by (simp add: sphere_vertices_length)
  have li: "length ?ix = 98304"
    using sphere_index_loop_rows
      [of 128 "map (junk_ushort h (Suc (Suc (requests h)))) [0..<98304]"] by simp
  have pt: "?vc ! ((lat * 129 + lon) * 3 + j) = sphere_point 128 128 lat lon ! j"
    if "lat \<le> 128" "lon \<le> 128" "j < 3" for lat lon j
    using sphere_vertices_nth [of lat 128 lon 128 j ?vca nbPlanes left top' right bottom ?tca]
      that by simp
  have coords: "?vc ! ((lat * 129 + lon) * 3)
            = SPHERE_RADIUS * (cos (real lon * 2 * pi / 128) * sin (real lat * pi / 128))
        \<and> ?vc ! ((lat * 129 + lon) * 3 + 1) = SPHERE_RADIUS * cos (real lat * pi / 128)
        \<and> ?vc ! ((lat * 129 + lon) * 3 + 2)
            = SPHERE_RADIUS * (sin (real lon * 2 * pi / 128) * sin (real lat * pi / 128))"
    if "lat \<le> 128" "lon \<le> 128" for lat lon
    using pt [OF that, of 0] pt [OF that, of 1] pt [OF that, of 2]
    by (simp add: sphere_point_def Let_def)
  have norm: "sqrt ((?vc ! (v * 3))\<^sup>2 + (?vc ! (v * 3 + 1))\<^sup>2 + (?vc ! (v * 3 + 2))\<^sup>2)
      = SPHERE_RADIUS" if "v < 16641" for v
  proof -
    let ?lat = "v div 129" and ?lon = "v mod 129"
    have lat: "?lat \<le> 128" using that by simp
    have lon: "?lon \<le> 128" by simp
    have v: "?lat * 129 + ?lon = v" by simp
    have "(?vc ! (v * 3))\<^sup>2 + (?vc ! (v * 3 + 1))\<^sup>2 + (?vc ! (v * 3 + 2))\<^sup>2
        = SPHERE_RADIUS\<^sup>2"
      using pt [OF lat lon, of 0] pt [OF lat lon, of 1] pt [OF lat lon, of 2]
        sphere_point_norm [of 128 128 ?lat ?lon]
      unfolding v by simp
    then show ?thesis by (simp add: SPHERE_RADIUS_def)
  qed
  show ?thesis
    unfolding BuildSphere_success [OF assms]
    using lv li coords norm by simp
qed

theorem BuildSphere_geometry_witness:
  "\<not> oom (sample_heap []) (requests (sample_heap []))
   \<and> \<not> oom (sample_heap []) (Suc (requests (sample_heap [])))
   \<and> \<not> oom (sample_heap []) (Suc (Suc (requests (sample_heap []))))
   \<and> (\<exists>m h'. BuildSphere 1 [0] [0] [1] [1] (sample_heap []) = (Inr m, h')
        \<and> nbVertices m = 16641 \<and> nbIndices m = 98304
        \<and> (64::nat) \<le> 128 \<and> (0::nat) \<le> 128 \<and> (24768::nat) div 3 < nbVertices m
        \<and> snd (vertexCoord m) ! 24768 = 1
        \<and> snd (vertexCoord m) ! 24769 = 0
        \<and> snd (vertexCoord m) ! 24770 = 0
        \<and> sqrt ((snd (vertexCoord m) ! 24768)\<^sup>2 + (snd (vertexCoord m) ! 24769)\<^sup>2
                 + (snd (vertexCoord m) ! 24770)\<^sup>2) = 1)"
proof -
  have ok: "\<not> oom (sample_heap []) (requests (sample_heap []))"
    "\<not> oom (sample_heap []) (Suc (requests (sample_heap [])))"
    "\<not> oom (sample_heap []) (Suc (Suc (requests (sample_heap []))))"
    by (simp_all add: sample_heap_def)
  from BuildSphere_geometry [OF ok, of 1 "[0]" "[0]" "[1]" "[1]"]
  obtain m h' where m: "BuildSphere 1 [0] [0] [1] [1] (sample_heap []) = (Inr m, h')"
      "nbVertices m = 16641" "nbIndices m = 98304"
    and pts: "\<And>lat lon. lat \<le> 128 \<Longrightarrow> lon \<le> 128 \<Longrightarrow>
          snd (vertexCoord m) ! ((lat * 129 + lon) * 3)
            = SPHERE_RADIUS * (cos (real lon * 2 * pi / 128) * sin (real lat * pi / 128))
        \<and> snd (vertexCoord m) ! ((lat * 129 + lon) * 3 + 1)
            = SPHERE_RADIUS * cos (real lat * pi / 128)
        \<and> snd (vertexCoord m) ! ((lat * 129 + lon) * 3 + 2)
            = SPHERE_RADIUS * (sin (real lon * 2 * pi / 128) * sin (real lat * pi / 128))"
    and norm: "\<And>v. v < nbVertices m \<Longrightarrow>
          sqrt ((snd (vertexCoord m) ! (v * 3))\<^sup>2 + (snd (vertexCoord m) ! (v * 3 + 1))\<^sup>2
                + (snd (vertexCoord m) ! (v * 3 + 2))\<^sup>2) = SPHERE_RADIUS"
    by blast
  have "snd (vertexCoord m) ! 24768 = 1 \<and> snd (vertexCoord m) ! 24769 = 0
      \<and> snd (vertexCoord m) ! 24770 = 0"
    using pts [of 64 0] by (simp add: SPHERE_RADIUS_def)
  moreover have "sqrt ((snd (vertexCoord m) ! 24768)\<^sup>2 + (snd (vertexCoord m) ! 24769)\<^sup>2
                 + (snd (vertexCoord m) ! 24770)\<^sup>2) = 1"
    using norm [of 8256] m(2) by (simp add: SPHERE_RADIUS_def)
  ultimately show ?thesis using ok m by auto
qed

text \<open>
  C10. Every entry of the index array of \<^verbatim>\<open>BuildSphere\<close> is below the number of
  vertices, 16641, hence also fits a \<^verbatim>\<open>GLushort\<close>: the value read back from the
  16-bit cell is the vertex number that was stored. The proof goes through the
  loops with both band counts equal (\<open>sphere_index_loop n n\<close>): the offset
  \<open>(lat * nbLatBands + lon) * 6\<close> enumerates the cells only then.
\<close>

theorem BuildSphere_indices_in_range:
  assumes "\<not> oom h (requests h)" "\<not> oom h (Suc (requests h))"
    "\<not> oom h (Suc (Suc (requests h)))"
  shows "\<exists>m h'. BuildSphere nbPlanes left top' right bottom h = (Inr m, h')
    \<and> nbVertices m = 16641 \<and> nbIndices m = 98304
    \<and> length (snd (indices m)) = nbIndices m
    \<and> (\<forall>k<nbIndices m. unat (snd (indices m) ! k) < nbVertices m)"
proof -
  let ?ixa = "map (junk_ushort h (Suc (Suc (requests h)))) [0..<98304]"
  let ?ix = "sphere_index_loop 128 128 ?ixa"
  have li: "length ?ix = 98304"
    using sphere_index_loop_rows [of 128 ?ixa] by simp
  have bound: "unat (?ix ! k) < 16641" if "k < 98304" for k
  proof -
    from sphere_index_loop_bound [of k 128 ?ixa] that
    obtain v where v: "v < 16641" "?ix ! k = of_nat v" by auto
    then show ?thesis by (simp add: unat_of_nat)
  qed
  show ?thesis
    unfolding BuildSphere_success [OF assms]
    using li bound by simp
qed


theorem BuildSphere_indices_in_range_witness:
  "\<not> oom (sample_heap []) (requests (sample_heap []))
   \<and> \<not> oom (sample_heap []) (Suc (requests (sample_heap [])))
   \<and> \<not> oom (sample_heap []) (Suc (Suc (requests (sample_heap []))))
   \<and> (\<exists>m h'. BuildSphere 1 [0] [0] [1] [1] (sample_heap []) = (Inr m, h')
        \<and> (98303::nat) < nbIndices m
        \<and> unat (snd (indices m) ! 98303) < nbVertices m)"
proof -
  have ok: "\<not> oom (sample_heap []) (requests (sample_heap []))"
    "\<not> oom (sample_heap []) (Suc (requests (sample_heap [])))"
    "\<not> oom (sample_heap []) (Suc (Suc (requests (sample_heap []))))"
    by (simp_all add: sample_heap_def)
  from BuildSphere_indices_in_range [OF ok, of 1 "[0]" "[0]" "[1]" "[1]"]
  obtain m h' where m: "BuildSphere 1 [0] [0] [1] [1] (sample_heap []) = (Inr m, h')"
      "nbIndices m = 98304"
    and b: "\<And>k. k < nbIndices m \<Longrightarrow> unat (snd (indices m) ! k) < nbVertices m"
    by blast
  have "unat (snd (indices m) ! 98303) < nbVertices m" using b [of 98303] m(2) by simp
  then show ?thesis using ok m by auto
qed

text \<open>
  Every store of the loops of \<^verbatim>\<open>BuildSphere\<close> is inside the array it goes to: the
  last offsets into the vertex, texture coordinate and index arrays are below the
  sizes requested.
\<close>

lemma BuildSphere_stores_in_range:
  fixes lat lon p nbPlanes :: nat
  assumes "lat \<le> 128" "lon \<le> 128" "p < nbPlanes"
  shows "(lat * (128 + 1) + lon) * 3 + 2 < (128 + 1) * (128 + 1) * 3"
    and "(p * (128 + 1) * (128 + 1) + lat * (128 + 1) + lon) * 2 + 1
          < nbPlanes * ((128 + 1) * (128 + 1)) * 2"
    and "lat < 128 \<Longrightarrow> lon < 128 \<Longrightarrow> (lat * 128 + lon) * 3 * 2 + 5 < 128 * 128 * 3 * 2"
proof -
  have v: "lat * 129 + lon < 16641" using assms(1,2) by linarith
  then show "(lat * (128 + 1) + lon) * 3 + 2 < (128 + 1) * (128 + 1) * 3" by simp
  have "Suc p * 16641 \<le> nbPlanes * 16641" using assms(3) by (intro mult_le_mono1) simp
  then have "p * 16641 + (lat * 129 + lon) < nbPlanes * 16641" using v by simp
  then show "(p * (128 + 1) * (128 + 1) + lat * (128 + 1) + lon) * 2 + 1
          < nbPlanes * ((128 + 1) * (128 + 1)) * 2" by simp
  show "(lat * 128 + lon) * 3 * 2 + 5 < 128 * 128 * 3 * 2" if "lat < 128" "lon < 128"
  proof -
    have "lat * 128 + lon < 16384" using that by linarith
    then show ?thesis by simp
  qed
qed

text \<open>
  With two latitude bands and one longitude band the same loops leave the second
  half of the index array as it was allocated: the offset of the second row is past
  the end.
\<close>

lemma sphere_index_loop_unequal_bands:
  "sphere_index_loop 2 1 [a0, a1, a2, a3, a4, a5, a6, a7, a8, a9, a10, a11]
   = [0, 2, 1, 2, 3, 1, a6, a7, a8, a9, a10, a11]"
  by (simp add: sphere_index_loop_def sphere_index_cell_def Let_def numeral_2_eq_2)

subsection \<open>Stereo crop\<close>





subsection \<open>Allocation failure in the mesh builders\<close>

lemma heap_wf_fresh:
  assumes "heap_wf h"
  shows "requests h \<notin> live h" "Suc (requests h) \<notin> live h" "Suc (Suc (requests h)) \<notin> live h"
  using assms by (auto simp add: heap_wf_def)

lemma BuildRectangle_fail:
  assumes "alloc_fails h"
  shows "\<exists>h'. BuildRectangle n left top' right bottom h = (Inl VLC_ENOMEM, h')
           \<and> (heap_wf h \<longrightarrow> live h' = live h)"
proof (cases "oom h (requests h)")
  case True
  then show ?thesis by (simp add: BuildRectangle_def vlc_alloc_fail)
next
  case a: False
  show ?thesis
  proof (cases "oom h (Suc (requests h))")
    case True
    then show ?thesis
      using a heap_wf_fresh [of h]
      by (simp add: BuildRectangle_def vlc_alloc_ok vlc_alloc_fail free_def)
  next
    case False
    with a assms have "oom h (Suc (Suc (requests h)))" by (simp add: alloc_fails_def)
    then show ?thesis
      using a False heap_wf_fresh [of h]
      by (simp add: BuildRectangle_def vlc_alloc_ok vlc_alloc_fail free_def)
  qed
qed

lemma BuildSphere_fail:
  assumes "alloc_fails h"
  shows "\<exists>h'. BuildSphere n left top' right bottom h = (Inl VLC_ENOMEM, h')
           \<and> (heap_wf h \<longrightarrow> live h' = live h)"
proof (cases "oom h (requests h)")
  case True
  then show ?thesis by (simp add: BuildSphere_def vlc_alloc_fail)
next
  case a: False
  show ?thesis
  proof (cases "oom h (Suc (requests h))")
    case True
    then show ?thesis
      using a heap_wf_fresh [of h]
      by (simp add: BuildSphere_def vlc_alloc_ok vlc_alloc_fail free_def)
  next
    case False
    with a assms have "oom h (Suc (Suc (requests h)))" by (simp add: alloc_fails_def)
    then show ?thesis
      using a False heap_wf_fresh [of h]
      by (simp add: BuildSphere_def vlc_alloc_ok vlc_alloc_fail free_def)
  qed
qed

lemma BuildCube_fail:
  assumes "alloc_fails h"
  shows "\<exists>h'. BuildCube n padW padH left top' right bottom h = (Inl VLC_ENOMEM, h')
           \<and> (heap_wf h \<longrightarrow> live h' = live h)"
proof (cases "oom h (requests h)")
  case True
  then show ?thesis by (simp add: BuildCube_def vlc_alloc_fail)
next
  case a: False
  show ?thesis
  proof (cases "oom h (Suc (requests h))")
    case True
    then show ?thesis
      using a heap_wf_fresh [of h]
      by (simp add: BuildCube_def vlc_alloc_ok vlc_alloc_fail free_def)
  next
    case False
    with a assms have "oom h (Suc (Suc (requests h)))" by (simp add: alloc_fails_def)
    then show ?thesis
      using a False heap_wf_fresh [of h]
      by (simp add: BuildCube_def vlc_alloc_ok vlc_alloc_fail free_def)
  qed
qed




subsection \<open>Uploading and drawing\<close>

lemma filter_concat_map_none:
  assumes "\<And>x. filter P (f x) = []"
  shows "filter P (concat (map f xs)) = []"
  using assms by (induction xs) simp_all

lemma filter_concat_map_one:
  assumes "\<And>x. length (filter P (f x)) = 1"
  shows "length (filter P (concat (map f xs))) = length xs"
  using assms by (induction xs) simp_all


lemma uploads_upload_calls:
  "length (filter is_upload (upload_calls renderer m)) = tex_count (interop renderer) + 2"
  by (simp add: upload_calls_def filter_concat_map_one)


lemma uploads_DrawWithShaders: "filter is_upload (DrawWithShaders renderer) = []"
  by (simp add: DrawWithShaders_def Let_def filter_concat_map_none)


lemma SetupCoords_fail:
  assumes "alloc_fails h"
    "projection_mode (fmt renderer) \<noteq> PROJECTION_MODE_OTHER"
  shows "\<exists>h'. SetupCoords renderer left top' right bottom h
                 = (Inl VLC_ENOMEM, renderer, h', [])
           \<and> (heap_wf h \<longrightarrow> live h' = live h)"
proof (cases "projection_mode (fmt renderer)")
  case PROJECTION_MODE_RECTANGULAR
  from BuildRectangle_fail [OF assms(1)] obtain h' where
    "BuildRectangle (tex_count (interop renderer)) left top' right bottom h
       = (Inl VLC_ENOMEM, h')" "heap_wf h \<longrightarrow> live h' = live h" by blast
  then show ?thesis using PROJECTION_MODE_RECTANGULAR by (simp add: SetupCoords_def)
next
  case PROJECTION_MODE_EQUIRECTANGULAR
  from BuildSphere_fail [OF assms(1)] obtain h' where
    "BuildSphere (tex_count (interop renderer)) left top' right bottom h
       = (Inl VLC_ENOMEM, h')" "heap_wf h \<longrightarrow> live h' = live h" by blast
  then show ?thesis using PROJECTION_MODE_EQUIRECTANGULAR by (simp add: SetupCoords_def)
next
  case PROJECTION_MODE_CUBEMAP_LAYOUT_STANDARD
  from BuildCube_fail [OF assms(1)] obtain h' where
    "BuildCube (tex_count (interop renderer))
       (real (unat (i_cubemap_padding (fmt renderer))) / real (unat (i_width (fmt renderer))))
       (real (unat (i_cubemap_padding (fmt renderer))) / real (unat (i_height (fmt renderer))))
       left top' right bottom h = (Inl VLC_ENOMEM, h')" "heap_wf h \<longrightarrow> live h' = live h"
    by blast
  then show ?thesis
    using PROJECTION_MODE_CUBEMAP_LAYOUT_STANDARD by (simp add: SetupCoords_def)
next
  case PROJECTION_MODE_OTHER
  with assms(2) show ?thesis by simp
qed






lemma Draw_changed_failed:
  assumes "source_changed source (last_source renderer)"
    "SetupCoords renderer
       (fst (TextureCropForStereo renderer (plane_rects renderer source)))
       (fst (snd (TextureCropForStereo renderer (plane_rects renderer source))))
       (fst (snd (snd (TextureCropForStereo renderer (plane_rects renderer source)))))
       (snd (snd (snd (TextureCropForStereo renderer (plane_rects renderer source))))) h
     = (Inl e, renderer1, h1, calls1)"
  shows "vlc_gl_renderer_Draw renderer source h =
    (Inl e, renderer1, h1, [Clear, UseProgram (program_id renderer)] @ calls1)"
  using assms by (simp add: vlc_gl_renderer_Draw_def split_def)




lemma sample_changed:
  "source_changed (sample_source mode mv) (last_source (sample_renderer mode' mv'))"
  by (simp add: source_changed_def sample_source_def sample_renderer_def)




text \<open>
  C7. When one of the three allocations of a mesh builder fails, the builder returns
  \<^verbatim>\<open>VLC_ENOMEM\<close> and the heap holds the blocks it held before (what was allocated is
  freed); \<^verbatim>\<open>SetupCoords\<close> then makes no OpenGL call, and a
  \<^verbatim>\<open>vlc_gl_renderer_Draw\<close> that rebuilds returns \<^verbatim>\<open>VLC_ENOMEM\<close> having only cleared
  and selected the program: no buffer is uploaded and the renderer is unchanged.
\<close>

theorem mesh_allocation_failure:
  assumes "heap_wf h" "alloc_fails h"
  shows "(\<exists>h'. BuildRectangle n left top' right bottom h = (Inl VLC_ENOMEM, h')
            \<and> live h' = live h)
    \<and> (\<exists>h'. BuildSphere n left top' right bottom h = (Inl VLC_ENOMEM, h')
            \<and> live h' = live h)
    \<and> (\<exists>h'. BuildCube n padW padH left top' right bottom h = (Inl VLC_ENOMEM, h')
            \<and> live h' = live h)
    \<and> (projection_mode (fmt renderer) \<noteq> PROJECTION_MODE_OTHER \<longrightarrow>
         (\<exists>h'. SetupCoords renderer left top' right bottom h
                  = (Inl VLC_ENOMEM, renderer, h', [])
            \<and> live h' = live h))
    \<and> (projection_mode (fmt renderer) \<noteq> PROJECTION_MODE_OTHER
         \<and> source_changed source (last_source renderer) \<longrightarrow>
         (\<exists>h'. vlc_gl_renderer_Draw renderer source h
                  = (Inl VLC_ENOMEM, renderer, h', [Clear, UseProgram (program_id renderer)])
            \<and> live h' = live h))"
proof -
  let ?c = "TextureCropForStereo renderer (plane_rects renderer source)"
  have draw: "\<exists>h'. vlc_gl_renderer_Draw renderer source h
                  = (Inl VLC_ENOMEM, renderer, h', [Clear, UseProgram (program_id renderer)])
            \<and> live h' = live h"
    if mode: "projection_mode (fmt renderer) \<noteq> PROJECTION_MODE_OTHER"
      and ch: "source_changed source (last_source renderer)"
  proof -
    from SetupCoords_fail [OF assms(2) mode, of "fst ?c" "fst (snd ?c)" "fst (snd (snd ?c))"
        "snd (snd (snd ?c))"] assms(1)
    obtain h' where s: "SetupCoords renderer (fst ?c) (fst (snd ?c)) (fst (snd (snd ?c)))
        (snd (snd (snd ?c))) h = (Inl VLC_ENOMEM, renderer, h', [])" "live h' = live h"
      by blast
    from Draw_changed_failed [OF ch s(1)] s(2) show ?thesis by simp
  qed
  show ?thesis
    using BuildRectangle_fail [OF assms(2), of n left top' right bottom]
      BuildSphere_fail [OF assms(2), of n left top' right bottom]
      BuildCube_fail [OF assms(2), of n padW padH left top' right bottom]
      SetupCoords_fail [OF assms(2), of renderer left top' right bottom]
      draw assms(1)
    by blast
qed

theorem mesh_allocation_failure_witness:
  "heap_wf (sample_heap [1]) \<and> alloc_fails (sample_heap [1])
   \<and> projection_mode (fmt (sample_renderer PROJECTION_MODE_EQUIRECTANGULAR MULTIVIEW_2D))
       \<noteq> PROJECTION_MODE_OTHER
   \<and> source_changed (sample_source PROJECTION_MODE_EQUIRECTANGULAR MULTIVIEW_2D)
       (last_source (sample_renderer PROJECTION_MODE_EQUIRECTANGULAR MULTIVIEW_2D))
   \<and> (\<exists>h'. BuildSphere 1 [0] [0] [1] [1] (sample_heap [1]) = (Inl VLC_ENOMEM, h')
          \<and> live h' = {})
   \<and> (\<exists>h'. vlc_gl_renderer_Draw (sample_renderer PROJECTION_MODE_EQUIRECTANGULAR MULTIVIEW_2D)
               (sample_source PROJECTION_MODE_EQUIRECTANGULAR MULTIVIEW_2D) (sample_heap [1])
             = (Inl VLC_ENOMEM, sample_renderer PROJECTION_MODE_EQUIRECTANGULAR MULTIVIEW_2D,
                h', [Clear, UseProgram 1])
          \<and> live h' = {})"
proof -
  let ?r = "sample_renderer PROJECTION_MODE_EQUIRECTANGULAR MULTIVIEW_2D"
  let ?s = "sample_source PROJECTION_MODE_EQUIRECTANGULAR MULTIVIEW_2D"
  have h: "heap_wf (sample_heap [1])" "alloc_fails (sample_heap [1])"
    by (simp_all add: heap_wf_def alloc_fails_def sample_heap_def)
  have r: "projection_mode (fmt ?r) \<noteq> PROJECTION_MODE_OTHER" "program_id ?r = 1"
    by (simp_all add: sample_renderer_def sample_source_def)
  have l: "live (sample_heap [1]) = {}" by (simp add: sample_heap_def)
  show ?thesis
    using mesh_allocation_failure [OF h, where n = 1 and left = "[0]" and top' = "[0]"
          and right = "[1]" and bottom = "[1]" and renderer = ?r and source = ?s]
      h r sample_changed [of PROJECTION_MODE_EQUIRECTANGULAR MULTIVIEW_2D
        PROJECTION_MODE_EQUIRECTANGULAR MULTIVIEW_2D]
    unfolding l by simp
qed

end
